theory Spec2Isabelle
  imports Complex_Main "HOL-Library.AList"
begin

section \<open>Political Vector Projector: a shallow embedding of PoliVec\_Projector.py\<close>

text \<open>
  Conventions of the embedding.
  \<^item> A text file is the list of its lines as Python's file iteration yields them; a path
    that cannot be opened is \<open>None\<close>, and \<open>open\<close> raises \<open>IOError\<close> on it.
  \<^item> A Python exception is a value of \<open>error\<close>; a function that prints and may raise
    returns the list of messages it printed together with \<open>Inl\<close> of the exception or
    \<open>Inr\<close> of its value.
  \<^item> Strings are ASCII. Numbers of numpy are idealised: a float is a real number, an
    infinity or NaN (no rounding, no overflow, one zero).
  \<^item> What numpy, scipy, matplotlib and Python's number parsers do is not code of this
    program: the parsers, the two correlation routines and the scatter call are
    parameters, collected in the record \<open>lib\<close>.
\<close>

subsection \<open>Exceptions, messages, printing\<close>

datatype error = ValueError | IndexError | KeyError | TypeError | ZeroDivisionError | IOError

datatype npfloat = Fin real | PInf | NInf | NaN

datatype ndarray = Scalar npfloat | Array "npfloat list"

datatype msg =
    ShapeWarning string string "nat list"
  | MissingScores "string list"
  | FailedToGraph int
  | SessionMissing int "string list"
  | Correlations npfloat npfloat
  | Averages npfloat npfloat

type_synonym 'a io = "msg list \<times> (error + 'a)"

definition ret :: "'a \<Rightarrow> 'a io" where
  "ret x = ([], Inr x)"

definition raise :: "error \<Rightarrow> 'a io" where
  "raise e = ([], Inl e)"

definition say :: "msg \<Rightarrow> unit io" where
  "say m = ([m], Inr ())"

definition lift :: "error + 'a \<Rightarrow> 'a io" where
  "lift r = ([], r)"

definition io_bind :: "'a io \<Rightarrow> ('a \<Rightarrow> 'b io) \<Rightarrow> 'b io" where
  "io_bind m f =
     (case m of
        (l, Inl e) \<Rightarrow> (l, Inl e)
      | (l, Inr x) \<Rightarrow> (case f x of (l', r) \<Rightarrow> (l @ l', r)))"

fun mapE :: "('a \<Rightarrow> error + 'b) \<Rightarrow> 'a list \<Rightarrow> error + 'b list" where
  "mapE f [] = Inr []"
| "mapE f (x # xs) =
     (case f x of
        Inl e \<Rightarrow> Inl e
      | Inr y \<Rightarrow> (case mapE f xs of Inl e \<Rightarrow> Inl e | Inr ys \<Rightarrow> Inr (y # ys)))"

subsection \<open>The external libraries, as parameters\<close>

text \<open>
  \<open>to_float32 s\<close>: the float numpy makes of the string \<open>s\<close> in \<open>np.array(_, np.float32)\<close>,
  \<open>None\<close> where it raises ValueError. \<open>to_int s\<close>: Python's \<open>int(s)\<close>, \<open>None\<close> where it
  raises ValueError. \<open>pearsonr\<close>, \<open>spearmanr\<close>: the statistic (first component) of
  \<open>stats.pearsonr\<close> and \<open>stats.mstats.spearmanr\<close>, or the exception they raise.
  \<open>scatter\<close>: the exception \<open>ax.scatter\<close> raises, if any.
\<close>

record lib =
  to_float32 :: "string \<Rightarrow> npfloat option"
  to_int :: "string \<Rightarrow> int option"
  pearsonr :: "ndarray \<Rightarrow> npfloat list \<Rightarrow> error + npfloat"
  spearmanr :: "ndarray \<Rightarrow> npfloat list \<Rightarrow> error + npfloat"
  scatter :: "ndarray \<Rightarrow> npfloat list \<Rightarrow> error option"

subsection \<open>Idealised float arithmetic\<close>

fun fadd :: "npfloat \<Rightarrow> npfloat \<Rightarrow> npfloat" where
  "fadd NaN _ = NaN"
| "fadd _ NaN = NaN"
| "fadd (Fin x) (Fin y) = Fin (x + y)"
| "fadd PInf NInf = NaN"
| "fadd NInf PInf = NaN"
| "fadd PInf _ = PInf"
| "fadd _ PInf = PInf"
| "fadd NInf _ = NInf"
| "fadd _ NInf = NInf"

fun fsub :: "npfloat \<Rightarrow> npfloat \<Rightarrow> npfloat" where
  "fsub NaN _ = NaN"
| "fsub _ NaN = NaN"
| "fsub (Fin x) (Fin y) = Fin (x - y)"
| "fsub PInf PInf = NaN"
| "fsub NInf NInf = NaN"
| "fsub PInf _ = PInf"
| "fsub _ PInf = NInf"
| "fsub NInf _ = NInf"
| "fsub _ NInf = PInf"

fun fmul :: "npfloat \<Rightarrow> npfloat \<Rightarrow> npfloat" where
  "fmul NaN _ = NaN"
| "fmul _ NaN = NaN"
| "fmul (Fin x) (Fin y) = Fin (x * y)"
| "fmul PInf (Fin y) = (if y = 0 then NaN else if 0 < y then PInf else NInf)"
| "fmul NInf (Fin y) = (if y = 0 then NaN else if 0 < y then NInf else PInf)"
| "fmul (Fin x) PInf = (if x = 0 then NaN else if 0 < x then PInf else NInf)"
| "fmul (Fin x) NInf = (if x = 0 then NaN else if 0 < x then NInf else PInf)"
| "fmul PInf PInf = PInf"
| "fmul NInf NInf = PInf"
| "fmul PInf NInf = NInf"
| "fmul NInf PInf = NInf"

text \<open>Division of numpy floats never raises: \<open>0/0\<close> is NaN, \<open>x/0\<close> an infinity.\<close>

fun fdiv :: "npfloat \<Rightarrow> npfloat \<Rightarrow> npfloat" where
  "fdiv NaN _ = NaN"
| "fdiv _ NaN = NaN"
| "fdiv (Fin x) (Fin y) =
     (if y \<noteq> 0 then Fin (x / y)
      else if x = 0 then NaN else if 0 < x then PInf else NInf)"
| "fdiv (Fin x) _ = Fin 0"
| "fdiv PInf (Fin y) = (if 0 \<le> y then PInf else NInf)"
| "fdiv NInf (Fin y) = (if 0 \<le> y then NInf else PInf)"
| "fdiv _ _ = NaN"

fun fsqrt :: "npfloat \<Rightarrow> npfloat" where
  "fsqrt (Fin x) = (if x < 0 then NaN else Fin (sqrt x))"
| "fsqrt PInf = PInf"
| "fsqrt NInf = NaN"
| "fsqrt NaN = NaN"

definition fsum :: "npfloat list \<Rightarrow> npfloat" where
  "fsum xs = foldl fadd (Fin 0) xs"

text \<open>\<open>np.linalg.norm\<close> of a one-dimensional array, and the inner product of two.\<close>

definition norm2 :: "npfloat list \<Rightarrow> npfloat" where
  "norm2 v = fsqrt (fsum (map (\<lambda>c. fmul c c) v))"

definition dot :: "npfloat list \<Rightarrow> npfloat list \<Rightarrow> npfloat" where
  "dot a b = fsum (map2 fmul a b)"

subsection \<open>Strings: \<open>strip\<close>, \<open>split\<close>, \<open>lower\<close>, \<open>re.sub(',.*', '', _)\<close>\<close>

definition is_space :: "char \<Rightarrow> bool" where
  "is_space c = (c \<in> set [CHR '' '', CHR 0x09, CHR 0x0A, CHR 0x0B, CHR 0x0C, CHR 0x0D,
                           CHR 0x1C, CHR 0x1D, CHR 0x1E, CHR 0x1F])"

definition strip :: "string \<Rightarrow> string" where
  "strip s = rev (dropWhile is_space (rev (dropWhile is_space s)))"

text \<open>\<open>str.split()\<close> with no argument: the maximal runs of non-whitespace.\<close>

fun split_go :: "string \<Rightarrow> string \<Rightarrow> string list" where
  "split_go cur [] = (if cur = [] then [] else [cur])"
| "split_go cur (c # cs) =
     (if is_space c then (if cur = [] then split_go [] cs else cur # split_go [] cs)
      else split_go (cur @ [c]) cs)"

definition split_ws :: "string \<Rightarrow> string list" where
  "split_ws s = split_go [] s"

definition lower_char :: "char \<Rightarrow> char" where
  "lower_char c =
     (case map_of (zip ''ABCDEFGHIJKLMNOPQRSTUVWXYZ'' ''abcdefghijklmnopqrstuvwxyz'') c of
        Some d \<Rightarrow> d
      | None \<Rightarrow> c)"

definition lower :: "string \<Rightarrow> string" where
  "lower s = map lower_char s"

text \<open>
  \<open>re.sub(',.*', '', s)\<close>: every comma and what follows it up to (not including) the next
  newline is deleted; the flag says whether the scan is inside such a match.
\<close>

fun re_sub_go :: "bool \<Rightarrow> string \<Rightarrow> string" where
  "re_sub_go _ [] = []"
| "re_sub_go True (c # cs) =
     (if c = CHR 0x0A then c # re_sub_go False cs else re_sub_go True cs)"
| "re_sub_go False (c # cs) =
     (if c = CHR '','' then re_sub_go True cs else c # re_sub_go False cs)"

definition re_sub_comma :: "string \<Rightarrow> string" where
  "re_sub_comma s = re_sub_go False s"

subsection \<open>\<open>read_dwnominate_csv\<close>\<close>

text \<open>
  A row of \<open>csv.DictReader\<close> over a file whose header has the columns \<open>bioname\<close> and
  \<open>dim1\<close>.
\<close>

record row =
  bioname :: string
  dim1 :: string

text \<open>The loop body: the state is \<open>(ideology_scores, names, missing)\<close>.\<close>

definition dw_step :: "row \<Rightarrow> string list \<times> string list \<times> string list
    \<Rightarrow> string list \<times> string list \<times> string list" where
  "dw_step r st =
     (case st of (ideology_scores, names, missing) \<Rightarrow>
        if dim1 r \<noteq> []
        then (ideology_scores @ [dim1 r], names @ [bioname r], missing)
        else (ideology_scores @ [''0''],
              names @ [bioname r @ ''(missing score)''],
              missing @ [bioname r]))"

definition np_array1 :: "lib \<Rightarrow> string list \<Rightarrow> error + npfloat list" where
  "np_array1 L toks =
     mapE (\<lambda>t. case to_float32 L t of None \<Rightarrow> Inl ValueError | Some x \<Rightarrow> Inr x) toks"

definition read_dwnominate_csv :: "lib \<Rightarrow> row list option \<Rightarrow> (npfloat list \<times> string list) io" where
  "read_dwnominate_csv L csv_file =
     (case csv_file of
        None \<Rightarrow> raise IOError
      | Some rows \<Rightarrow>
          (case fold dw_step rows ([], [], []) of (ideology_scores, names, missing) \<Rightarrow>
             io_bind (if missing \<noteq> [] then say (MissingScores missing) else ret ()) (\<lambda>_.
             io_bind (lift (np_array1 L ideology_scores)) (\<lambda>scores.
             ret (scores, map (\<lambda>i. lower (re_sub_comma i)) names)))))"

subsection \<open>Vector files\<close>

definition parse_vector :: "string \<Rightarrow> error + (string list \<times> string)" where
  "parse_vector line =
     (case split_ws (strip line) of
        [] \<Rightarrow> Inl IndexError
      | label # vector \<Rightarrow> Inr (vector, label))"

text \<open>
  \<open>np.array(rows, np.float32)\<close> on a list of lists of strings: ValueError when the rows
  differ in length or a token is no float. The shape of the array is \<open>(0,)\<close> for no row
  and \<open>(N, D)\<close> otherwise.
\<close>

definition rectangular :: "'a list list \<Rightarrow> bool" where
  "rectangular rows =
     (case rows of [] \<Rightarrow> True | r # rs \<Rightarrow> list_all (\<lambda>q. length q = length r) rs)"

definition np_array2 :: "lib \<Rightarrow> string list list \<Rightarrow> error + npfloat list list" where
  "np_array2 L rows = (if rectangular rows then mapE (np_array1 L) rows else Inl ValueError)"

definition shape :: "'a list list \<Rightarrow> nat list" where
  "shape vs = (case vs of [] \<Rightarrow> [0] | v # _ \<Rightarrow> [length vs, length v])"

text \<open>
  \<open>validate_shape\<close>: only the AssertionError is caught; the ValueError of \<open>int\<close> is not.
\<close>

definition validate_shape :: "lib \<Rightarrow> nat list \<Rightarrow> string \<Rightarrow> string \<Rightarrow> unit io" where
  "validate_shape L shp vocab_size embed_dim =
     (case to_int L vocab_size of
        None \<Rightarrow> raise ValueError
      | Some v \<Rightarrow>
          (case to_int L embed_dim of
             None \<Rightarrow> raise ValueError
           | Some d \<Rightarrow>
               if map int shp = [v, d] then ret ()
               else say (ShapeWarning vocab_size embed_dim shp)))"

text \<open>\<open>f.readline()\<close> on the lines still unread: the empty string at the end of the file.\<close>

definition readline :: "string list \<Rightarrow> string" where
  "readline lines = (case lines of [] \<Rightarrow> [] | l # _ \<Rightarrow> l)"

definition read_vec_file :: "lib \<Rightarrow> string list option \<Rightarrow> (npfloat list list \<times> string list) io" where
  "read_vec_file L vec_file =
     (case vec_file of
        None \<Rightarrow> raise IOError
      | Some lines \<Rightarrow>
          (case split_ws (strip (readline lines)) of
             [vocab_size, embed_dim] \<Rightarrow>
               io_bind (lift (mapE parse_vector (drop 1 lines))) (\<lambda>parsed.
               io_bind (lift (np_array2 L (map fst parsed))) (\<lambda>vectors.
               io_bind (validate_shape L (shape vectors) vocab_size embed_dim) (\<lambda>_.
               ret (vectors, map snd parsed))))
           | _ \<Rightarrow> raise ValueError))"

definition read_vec_file_with_axes ::
    "lib \<Rightarrow> string list option \<Rightarrow> error + (npfloat list list \<times> npfloat list list \<times> string list)" where
  "read_vec_file_with_axes L vec_file =
     (case vec_file of
        None \<Rightarrow> Inl IOError
      | Some lines \<Rightarrow>
          (case mapE parse_vector (map (\<lambda>i. readline (drop i lines)) [0, 1, 2, 3]) of
             Inl e \<Rightarrow> Inl e
           | Inr axes \<Rightarrow>
               (case mapE parse_vector (drop 4 lines) of
                  Inl e \<Rightarrow> Inl e
                | Inr parsed \<Rightarrow>
                    (case np_array2 L (map fst parsed) of
                       Inl e \<Rightarrow> Inl e
                     | Inr vectors \<Rightarrow>
                         (case np_array2 L (map fst axes) of
                            Inl e \<Rightarrow> Inl e
                          | Inr axis_vectors \<Rightarrow> Inr (vectors, axis_vectors, map snd parsed))))))"

text \<open>
  A dict is an association list with distinct keys in insertion order; \<open>d[k] = v\<close> is
  \<open>AList.update\<close>, which overwrites in place or appends.
\<close>

type_synonym vec_dict = "(string \<times> npfloat list) list"

fun dict_loop :: "lib \<Rightarrow> string list \<Rightarrow> vec_dict \<Rightarrow> error + vec_dict" where
  "dict_loop L [] d = Inr d"
| "dict_loop L (line # rest) d =
     (case parse_vector line of
        Inl e \<Rightarrow> Inl e
      | Inr (vector, label) \<Rightarrow>
          (case np_array1 L vector of
             Inl e \<Rightarrow> Inl e
           | Inr v \<Rightarrow> dict_loop L rest (AList.update label v d)))"

definition read_vec_file_as_dict :: "lib \<Rightarrow> string list option \<Rightarrow> vec_dict io" where
  "read_vec_file_as_dict L vec_file =
     (case vec_file of
        None \<Rightarrow> raise IOError
      | Some lines \<Rightarrow>
          (case split_ws (strip (readline lines)) of
             [vocab_size, embed_dim] \<Rightarrow>
               io_bind (lift (dict_loop L (drop 1 lines) [])) (\<lambda>d.
               (case map_of d ''coffee'' of
                  None \<Rightarrow> raise KeyError
                | Some c \<Rightarrow>
                    io_bind (validate_shape L [length d, length c] vocab_size embed_dim) (\<lambda>_.
                    ret d)))
           | _ \<Rightarrow> raise ValueError))"

subsection \<open>\<open>scalar_projection\<close>\<close>

text \<open>
  The rows of a two-dimensional array have one length, so no broadcasting happens in
  the subtraction of two of them; rows of different lengths are a ValueError.
\<close>

definition vsub :: "npfloat list \<Rightarrow> npfloat list \<Rightarrow> error + npfloat list" where
  "vsub a b = (if length a = length b then Inr (map2 fsub a b) else Inl ValueError)"

text \<open>Lines 126-127 (and 128-129): the difference of two anchors over its norm.\<close>

definition build_axis :: "npfloat list \<Rightarrow> npfloat list \<Rightarrow> error + npfloat list" where
  "build_axis positive negative =
     (case vsub positive negative of
        Inl e \<Rightarrow> Inl e
      | Inr axis \<Rightarrow> Inr (map (\<lambda>c. fdiv c (norm2 axis)) axis))"

text \<open>
  \<open>np.dot(vectors, axis)\<close>: a list of no vectors is an array of shape \<open>(0,)\<close>, whose
  product with an axis of dimension 0 is the scalar 0 and with any other axis a
  ValueError; \<open>N\<close> vectors of the axis's dimension give \<open>N\<close> inner products.
\<close>

definition np_dot :: "npfloat list list \<Rightarrow> npfloat list \<Rightarrow> error + ndarray" where
  "np_dot vectors axis =
     (if vectors = [] then (if axis = [] then Inr (Scalar (Fin 0)) else Inl ValueError)
      else if list_all (\<lambda>v. length v = length axis) vectors
      then Inr (Array (map (\<lambda>v. dot v axis) vectors))
      else Inl ValueError)"

definition scalar_projection ::
    "npfloat list list \<Rightarrow> npfloat list list \<Rightarrow> error + (ndarray \<times> ndarray)" where
  "scalar_projection vectors axis_vectors =
     (if length axis_vectors < 2 then Inl IndexError
      else
        (case build_axis (axis_vectors ! 0) (axis_vectors ! 1) of
           Inl e \<Rightarrow> Inl e
         | Inr x_axis \<Rightarrow>
             (if length axis_vectors < 4 then Inl IndexError
              else
                (case build_axis (axis_vectors ! 2) (axis_vectors ! 3) of
                   Inl e \<Rightarrow> Inl e
                 | Inr y_axis \<Rightarrow>
                     (case np_dot vectors x_axis of
                        Inl e \<Rightarrow> Inl e
                      | Inr x_proj \<Rightarrow>
                          (case np_dot vectors y_axis of
                             Inl e \<Rightarrow> Inl e
                           | Inr y_proj \<Rightarrow> Inr (x_proj, y_proj)))))))"

subsection \<open>\<open>scatter_plot\<close>\<close>

text \<open>
  Of the plot only its exceptions matter here: that of \<open>ax.scatter\<close>, and the IndexError
  of \<open>x_proj[i]\<close>, \<open>y_proj[i]\<close> in the loop over \<open>enumerate(labels)\<close>.
\<close>

definition indexable :: "ndarray \<Rightarrow> nat \<Rightarrow> bool" where
  "indexable x n = (case x of Scalar _ \<Rightarrow> n = 0 | Array xs \<Rightarrow> n \<le> length xs)"

definition scatter_plot :: "lib \<Rightarrow> ndarray \<Rightarrow> npfloat list \<Rightarrow> string list \<Rightarrow> error + unit" where
  "scatter_plot L x_proj y_proj labels =
     (case scatter L x_proj y_proj of
        Some e \<Rightarrow> Inl e
      | None \<Rightarrow>
          if indexable x_proj (length labels) \<and> length labels \<le> length y_proj then Inr ()
          else Inl IndexError)"

subsection \<open>Evaluation of one session, and of a range of sessions\<close>

text \<open>
  The files of a run: \<open>csv_files W n\<close> is \<open>./dw-nominate/Sn_members.csv\<close>, \<open>vec_files W n\<close>
  is the file \<open>vec_file.format(n)\<close>.
\<close>

record world =
  csv_files :: "int \<Rightarrow> row list option"
  vec_files :: "int \<Rightarrow> string list option"

definition evaluate_ideology_projection ::
    "lib \<Rightarrow> world \<Rightarrow> string list option \<Rightarrow> int \<Rightarrow> (npfloat \<times> npfloat) io" where
  "evaluate_ideology_projection L W vec_file cgrs_sess =
     io_bind (read_dwnominate_csv L (csv_files W cgrs_sess)) (\<lambda>(ideology, names).
     io_bind (lift (read_vec_file_with_axes L vec_file)) (\<lambda>(vectors, axis_vectors, _).
     io_bind (lift (scalar_projection vectors axis_vectors)) (\<lambda>(x_proj, _).
     io_bind (case scatter_plot L x_proj ideology names of
                Inl ValueError \<Rightarrow> say (FailedToGraph cgrs_sess)
              | Inl e \<Rightarrow> raise e
              | Inr _ \<Rightarrow> ret ()) (\<lambda>_.
     io_bind (lift (pearsonr L x_proj ideology)) (\<lambda>pearson.
     io_bind (lift (spearmanr L x_proj ideology)) (\<lambda>spearman.
     ret (pearson, spearman)))))))"

text \<open>
  The loop over \<open>range(start, end)\<close> of both drivers: evaluate the session, print its
  two statistics, add them to the totals.
\<close>

fun sum_loop :: "(int \<Rightarrow> (npfloat \<times> npfloat) io) \<Rightarrow> int list \<Rightarrow> npfloat \<times> npfloat
    \<Rightarrow> (npfloat \<times> npfloat) io" where
  "sum_loop ev [] totals = ret totals"
| "sum_loop ev (cgrs_sess # rest) totals =
     io_bind (ev cgrs_sess) (\<lambda>(pearson, spearman).
     io_bind (say (Correlations pearson spearman)) (\<lambda>_.
     sum_loop ev rest (fadd (fst totals) pearson, fadd (snd totals) spearman)))"

text \<open>
  The two last lines of both drivers. With \<open>end = start\<close> the loop has not run, the totals
  are the integer 0 and the division raises; in every other case it is a float division.
\<close>

definition print_averages :: "npfloat \<times> npfloat \<Rightarrow> int \<Rightarrow> int \<Rightarrow> unit io" where
  "print_averages totals start end' =
     (if end' - start = 0 then raise ZeroDivisionError
      else say (Averages (fdiv (fst totals) (Fin (of_int (end' - start))))
                         (fdiv (snd totals) (Fin (of_int (end' - start))))))"

definition compare_among_years :: "lib \<Rightarrow> world \<Rightarrow> int \<Rightarrow> int \<Rightarrow> unit io" where
  "compare_among_years L W start end' =
     io_bind (sum_loop (\<lambda>cgrs_sess. evaluate_ideology_projection L W (vec_files W cgrs_sess) cgrs_sess)
                [start..end' - 1] (Fin 0, Fin 0)) (\<lambda>totals.
     print_averages totals start end')"

text \<open>Lines 216-224: the senators found in the dict, and those not found.\<close>

definition in_vocab :: "vec_dict \<Rightarrow> npfloat list \<Rightarrow> string list \<Rightarrow> (string \<times> npfloat) list" where
  "in_vocab vec_dict ideology senators =
     filter (\<lambda>(senator, score). map_of vec_dict senator \<noteq> None) (zip senators ideology)"

definition missing_of :: "vec_dict \<Rightarrow> npfloat list \<Rightarrow> string list \<Rightarrow> string list" where
  "missing_of vec_dict ideology senators =
     filter (\<lambda>w. w \<notin> set (map fst (in_vocab vec_dict ideology senators))) senators"

text \<open>Lines 214-233: the body of the loop of \<open>dict_compare_among_years\<close>.\<close>

definition dict_session ::
    "lib \<Rightarrow> world \<Rightarrow> vec_dict \<Rightarrow> npfloat list list \<Rightarrow> int \<Rightarrow> (npfloat \<times> npfloat) io" where
  "dict_session L W vec_dict axis_vectors cgrs_sess =
     io_bind (read_dwnominate_csv L (csv_files W cgrs_sess)) (\<lambda>(ideology, senators).
     let in_vocab_labels = map fst (in_vocab vec_dict ideology senators);
         in_vocab_vec = map (\<lambda>s. the (map_of vec_dict s)) in_vocab_labels;
         in_vocab_score = map snd (in_vocab vec_dict ideology senators);
         missing = missing_of vec_dict ideology senators
     in
     io_bind (if missing \<noteq> [] then say (SessionMissing cgrs_sess missing) else ret ()) (\<lambda>_.
     io_bind (lift (scalar_projection in_vocab_vec axis_vectors)) (\<lambda>(x_proj, _).
     io_bind (lift (scatter_plot L x_proj in_vocab_score in_vocab_labels)) (\<lambda>_.
     io_bind (lift (pearsonr L x_proj in_vocab_score)) (\<lambda>pearson.
     io_bind (lift (spearmanr L x_proj in_vocab_score)) (\<lambda>spearman.
     ret (pearson, spearman)))))))"

definition dict_compare_among_years :: "lib \<Rightarrow> world \<Rightarrow> vec_dict \<Rightarrow> int \<Rightarrow> int \<Rightarrow> unit io" where
  "dict_compare_among_years L W vec_dict start end' =
     io_bind (lift (mapE (\<lambda>a. case map_of vec_dict a of None \<Rightarrow> Inl KeyError | Some v \<Rightarrow> Inr v)
                      [''conservative'', ''liberal'', ''good'', ''bad''])) (\<lambda>axis_vectors.
     io_bind (lift (if rectangular axis_vectors then Inr axis_vectors else Inl ValueError)) (\<lambda>axis_vectors.
     io_bind (sum_loop (dict_session L W vec_dict axis_vectors) [start..end' - 1] (Fin 0, Fin 0)) (\<lambda>totals.
     print_averages totals start end')))"

text \<open>
  Lines 171-173 (and 232-233): the two statistics, Pearson's first; the exception of the
  first routine that raises is what propagates.
\<close>

abbreviation correlations :: "lib \<Rightarrow> ndarray \<Rightarrow> npfloat list \<Rightarrow> error + (npfloat \<times> npfloat)" where
  "correlations L x y \<equiv>
     (case pearsonr L x y of
        Inl e \<Rightarrow> Inl e
      | Inr p \<Rightarrow> (case spearmanr L x y of Inl e \<Rightarrow> Inl e | Inr s \<Rightarrow> Inr (p, s)))"

subsection \<open>A library instance for concrete inputs\<close>

text \<open>
  The theorems below hold for every library \<open>L\<close>. Where a concrete input is evaluated,
  the parameters are instantiated as follows: the parsers know the literals used in the
  examples; \<open>ax.scatter\<close> raises ValueError on arguments of different sizes, as matplotlib
  does; both correlation routines raise ValueError on arguments of different lengths
  and on fewer than two samples, and otherwise return 1, the value of both coefficients
  on the perfectly correlated data of the examples.
\<close>

definition size_of :: "ndarray \<Rightarrow> nat" where
  "size_of x = (case x of Scalar _ \<Rightarrow> 1 | Array xs \<Rightarrow> length xs)"

definition example_corr :: "ndarray \<Rightarrow> npfloat list \<Rightarrow> error + npfloat" where
  "example_corr x y =
     (if size_of x \<noteq> length y \<or> length y < 2 then Inl ValueError else Inr (Fin 1))"

definition example_lib :: lib where
  "example_lib =
     \<lparr> to_float32 = map_of [(''0'', Fin 0), (''1'', Fin 1), (''-1'', Fin (- 1)),
                             (''2'', Fin 2), (''0.5'', Fin (1 / 2)), (''-0.5'', Fin (- 1 / 2))],
       to_int = map_of [(''2'', 2), (''3'', 3), (''4'', 4), (''7'', 7)],
       pearsonr = example_corr,
       spearmanr = example_corr,
       scatter = (\<lambda>x y. if size_of x \<noteq> length y then Some ValueError else None) \<rparr>"

subsection \<open>Example files\<close>

text \<open>
  The files of the concrete inputs. Every session has the four anchors of the
  end-to-end scenario. Sessions other than 3, 7, 8 and 20 have three vectors and three
  scored rows in the same order, perfectly correlated. Session 3 has one vector and one
  row; session 7 has a single row, of a senator who is no key of the example dict;
  session 8 has two vectors for three rows; session 20 has the rows of alice, bob and
  dave. The example dict holds the four anchor words, alice and bob.
\<close>

definition example_axes :: "string list" where
  "example_axes = [''conservative 1 0\<newline>'', ''liberal -1 0\<newline>'', ''good 0 1\<newline>'', ''bad 0 -1\<newline>'']"

definition example_csv :: "int \<Rightarrow> row list option" where
  "example_csv n =
     (if n = 3 then Some [\<lparr>bioname = ''ALICE, Ann'', dim1 = ''0.5''\<rparr>]
      else if n = 7 then Some [\<lparr>bioname = ''DAVE, Dan'', dim1 = ''0.5''\<rparr>]
      else if n = 20 then
        Some [\<lparr>bioname = ''ALICE, Ann'', dim1 = ''0.5''\<rparr>,
              \<lparr>bioname = ''BOB, Ben'', dim1 = ''-0.5''\<rparr>,
              \<lparr>bioname = ''DAVE, Dan'', dim1 = ''0''\<rparr>]
      else
        Some [\<lparr>bioname = ''ALICE, Ann'', dim1 = ''0.5''\<rparr>,
              \<lparr>bioname = ''BOB, Ben'', dim1 = ''0''\<rparr>,
              \<lparr>bioname = ''CAROL, Cy'', dim1 = ''-0.5''\<rparr>])"

definition example_vec :: "int \<Rightarrow> string list option" where
  "example_vec n =
     (if n = 3 then Some (example_axes @ [''alice 1 0\<newline>''])
      else if n = 8 then Some (example_axes @ [''alice 1 0\<newline>'', ''bob 0 1\<newline>''])
      else Some (example_axes @ [''alice 1 0\<newline>'', ''bob 0 1\<newline>'', ''carol -1 0\<newline>'']))"

definition example_world :: world where
  "example_world = \<lparr> csv_files = example_csv, vec_files = example_vec \<rparr>"

definition example_dict :: vec_dict where
  "example_dict =
     [(''conservative'', [Fin 1, Fin 0]), (''liberal'', [Fin (- 1), Fin 0]),
      (''good'', [Fin 0, Fin 1]), (''bad'', [Fin 0, Fin (- 1)]),
      (''alice'', [Fin 1, Fin 0]), (''bob'', [Fin (- 1), Fin 0])]"

section \<open>Properties\<close>

subsection \<open>Reference scores\<close>

text \<open>
  C1. The claim: a row whose score field is empty yields the score 0.0 and the name
  "lastname(missing score)", so "SMITH, John" yields "smith(missing score)". The code
  appends the tag to the raw name and only then deletes everything from the first comma
  on, so for "SMITH, John" the tag is deleted with the first names: the row yields the
  score 0 and the plain name "smith".
\<close>

theorem missing_score_tag_is_stripped:
  "read_dwnominate_csv example_lib (Some [\<lparr>bioname = ''SMITH, John'', dim1 = ''''\<rparr>]) =
     ([MissingScores [''SMITH, John'']], Inr ([Fin 0], [''smith'']))"
  by (simp add: read_dwnominate_csv_def dw_step_def io_bind_def say_def ret_def lift_def
      np_array1_def example_lib_def lower_def lower_char_def re_sub_comma_def)

subsection \<open>Unfolding rules\<close>

lemmas io_defs = ret_def raise_def say_def lift_def io_bind_def
lemmas str_defs = strip_def split_ws_def is_space_def parse_vector_def readline_def
lemmas arr_defs = np_array1_def np_array2_def rectangular_def shape_def

subsection \<open>Vector files\<close>

text \<open>
  C4. When the two header tokens are integers that disagree with the shape of the array
  parsed from the remaining lines, \<open>read_vec_file\<close> prints the shape warning, does not
  fail, and returns the vectors and labels parsed from the lines after the header: the
  header has no part in them.
\<close>

theorem header_is_advisory:
  assumes "split_ws (strip (readline lines)) = [vocab_size, embed_dim]"
    and "to_int L vocab_size = Some v" and "to_int L embed_dim = Some d"
    and "mapE parse_vector (drop 1 lines) = Inr parsed"
    and "np_array2 L (map fst parsed) = Inr vectors"
    and "map int (shape vectors) \<noteq> [v, d]"
  shows "read_vec_file L (Some lines) =
           ([ShapeWarning vocab_size embed_dim (shape vectors)], Inr (vectors, map snd parsed))"
  using assms by (simp add: read_vec_file_def io_defs validate_shape_def)

theorem header_is_advisory_witness:
  "read_vec_file example_lib
      (Some [''7 2\<newline>'', ''alice 1 0\<newline>'', ''bob 0 1\<newline>'', ''carol -1 0\<newline>'']) =
     ([ShapeWarning ''7'' ''2'' [3, 2]],
      Inr ([[Fin 1, Fin 0], [Fin 0, Fin 1], [Fin (- 1), Fin 0]], [''alice'', ''bob'', ''carol'']))"
proof -
  let ?lines = "[''7 2\<newline>'', ''alice 1 0\<newline>'', ''bob 0 1\<newline>'', ''carol -1 0\<newline>'']"
  have h: "split_ws (strip (readline ?lines)) = [''7'', ''2'']"
    by (simp add: str_defs)
  have i1: "to_int example_lib ''7'' = Some 7" and i2: "to_int example_lib ''2'' = Some 2"
    by (simp_all add: example_lib_def)
  have p: "mapE parse_vector (drop 1 ?lines) =
      Inr [([''1'', ''0''], ''alice''), ([''0'', ''1''], ''bob''), ([''-1'', ''0''], ''carol'')]"
    by (simp add: str_defs)
  have a: "np_array2 example_lib
        (map fst [([''1'', ''0''], ''alice''), ([''0'', ''1''], ''bob''), ([''-1'', ''0''], ''carol'')]) =
      Inr [[Fin 1, Fin 0], [Fin 0, Fin 1], [Fin (- 1), Fin 0]]"
    by (simp add: arr_defs example_lib_def)
  have s: "map int (shape [[Fin 1, Fin 0], [Fin 0, Fin 1], [Fin (- 1), Fin 0]]) \<noteq> [7, 2]"
    by (simp add: shape_def)
  from header_is_advisory[OF h i1 i2 p a s] show ?thesis by (simp add: shape_def)
qed

text \<open>The loop of \<open>read_vec_file_as_dict\<close>: it can be split, and a label no line carries keeps its entry.\<close>

lemma dict_loop_append:
  "dict_loop L (xs @ ys) d0 =
     (case dict_loop L xs d0 of Inl e \<Rightarrow> Inl e | Inr d1 \<Rightarrow> dict_loop L ys d1)"
  by (induction xs arbitrary: d0) (auto split: sum.splits prod.splits)

lemma dict_loop_other:
  "dict_loop L ls d0 = Inr d \<Longrightarrow> (\<forall>l\<in>set ls. \<forall>t. parse_vector l \<noteq> Inr (t, k))
     \<Longrightarrow> map_of d k = map_of d0 k"
proof (induction ls arbitrary: d0)
  case Nil
  then show ?case by simp
next
  case (Cons l ls)
  from Cons.prems(1) obtain t lab v where
    p: "parse_vector l = Inr (t, lab)" and a: "np_array1 L t = Inr v"
    and r: "dict_loop L ls (AList.update lab v d0) = Inr d"
    by (auto split: sum.splits prod.splits)
  from Cons.prems(2) p have ne: "lab \<noteq> k" by auto
  from Cons.prems(2) have "\<forall>l\<in>set ls. \<forall>t. parse_vector l \<noteq> Inr (t, k)" by simp
  from Cons.IH[OF r this] ne show ?case by (simp add: update_conv')
qed

lemma dict_loop_total:
  "\<forall>l\<in>set ls. \<exists>t lab v. parse_vector l = Inr (t, lab) \<and> np_array1 L t = Inr v \<Longrightarrow>
     \<exists>d. dict_loop L ls d0 = Inr d"
proof (induction ls arbitrary: d0)
  case Nil
  then show ?case by simp
next
  case (Cons l ls)
  from Cons.prems obtain t lab v where "parse_vector l = Inr (t, lab)" "np_array1 L t = Inr v"
    by auto
  moreover from Cons.prems have "\<exists>d. dict_loop L ls (AList.update lab v d0) = Inr d"
    by (intro Cons.IH) simp
  ultimately show ?case by simp
qed

lemma dict_loop_keeps_keys:
  "dict_loop L ls d0 = Inr d \<Longrightarrow> map_of d0 k \<noteq> None \<Longrightarrow> map_of d k \<noteq> None"
proof (induction ls arbitrary: d0)
  case Nil
  then show ?case by simp
next
  case (Cons l ls)
  from Cons.prems(1) obtain t lab v where
    r: "dict_loop L ls (AList.update lab v d0) = Inr d"
    by (auto split: sum.splits prod.splits)
  from Cons.prems(2) have "map_of (AList.update lab v d0) k \<noteq> None"
    by (simp add: update_conv')
  from Cons.IH[OF r this] show ?case .
qed

lemma dict_loop_has_key:
  "dict_loop L ls d0 = Inr d \<Longrightarrow> \<exists>l\<in>set ls. \<exists>t. parse_vector l = Inr (t, k) \<Longrightarrow>
     map_of d k \<noteq> None"
proof (induction ls arbitrary: d0)
  case Nil
  then show ?case by simp
next
  case (Cons l ls)
  from Cons.prems(1) obtain t lab v where
    p: "parse_vector l = Inr (t, lab)"
    and r: "dict_loop L ls (AList.update lab v d0) = Inr d"
    by (auto split: sum.splits prod.splits)
  show ?case
  proof (cases "lab = k")
    case True
    then have "map_of (AList.update lab v d0) k \<noteq> None" by (simp add: update_conv')
    from dict_loop_keeps_keys[OF r this] show ?thesis .
  next
    case False
    with Cons.prems(2) p have "\<exists>l\<in>set ls. \<exists>t. parse_vector l = Inr (t, k)" by auto
    from Cons.IH[OF r this] show ?thesis .
  qed
qed

text \<open>
  C9, as amended. In a file with a header of two integers, lines that all parse and a
  line labelled "coffee", \<open>read_vec_file_as_dict\<close> returns a dict, whether or not
  labels repeat, and a label's entry is the vector of the last line that carries the
  label: a line after which no line has the same label decides the entry, whatever
  lines came before it.
\<close>

theorem last_write_wins:
  assumes header: "split_ws (strip header) = [vocab_size, embed_dim]"
    and ints: "to_int L vocab_size \<noteq> None" "to_int L embed_dim \<noteq> None"
    and lines_ok: "\<forall>l\<in>set (pre @ line # post).
        \<exists>t lab v. parse_vector l = Inr (t, lab) \<and> np_array1 L t = Inr v"
    and coffee: "\<exists>l\<in>set (pre @ line # post). \<exists>t. parse_vector l = Inr (t, ''coffee'')"
    and line: "parse_vector line = Inr (vector, label)"
    and last: "\<forall>l\<in>set post. \<forall>t. parse_vector l \<noteq> Inr (t, label)"
  shows "\<exists>out d v. read_vec_file_as_dict L (Some (header # pre @ line # post)) = (out, Inr d) \<and>
           np_array1 L vector = Inr v \<and> map_of d label = Some v"
proof -
  from dict_loop_total[OF lines_ok] obtain d where
    d: "dict_loop L (pre @ line # post) [] = Inr d" by blast
  then obtain d1 where r: "dict_loop L (line # post) d1 = Inr d"
    by (auto simp: dict_loop_append split: sum.splits)
  from r line obtain v where v: "np_array1 L vector = Inr v"
    and r2: "dict_loop L post (AList.update label v d1) = Inr d"
    by (auto split: sum.splits)
  from dict_loop_other[OF r2 last] have entry: "map_of d label = Some v"
    by (simp add: update_conv')
  from dict_loop_has_key[OF d coffee] obtain c where c: "map_of d ''coffee'' = Some c"
    by auto
  from ints obtain n m where "to_int L vocab_size = Some n" "to_int L embed_dim = Some m"
    by auto
  with header d c have "\<exists>out. read_vec_file_as_dict L (Some (header # pre @ line # post)) = (out, Inr d)"
    by (simp add: read_vec_file_as_dict_def readline_def io_defs validate_shape_def)
  with v entry show ?thesis by blast
qed

theorem last_write_wins_witness:
  "read_vec_file_as_dict example_lib
      (Some [''3 2\<newline>'', ''coffee 1 0\<newline>'', ''alice 1 0\<newline>'', ''alice 0 1\<newline>'']) =
     ([ShapeWarning ''3'' ''2'' [2, 2]],
      Inr [(''coffee'', [Fin 1, Fin 0]), (''alice'', [Fin 0, Fin 1])]) \<and>
   np_array1 example_lib [''0'', ''1''] = Inr [Fin 0, Fin 1] \<and>
   map_of [(''coffee'', [Fin 1, Fin 0]), (''alice'', [Fin 0, Fin 1])] ''alice'' = Some [Fin 0, Fin 1]"
proof -
  have r: "read_vec_file_as_dict example_lib
        (Some (''3 2\<newline>'' # [''coffee 1 0\<newline>'', ''alice 1 0\<newline>''] @ ''alice 0 1\<newline>'' # [])) =
      ([ShapeWarning ''3'' ''2'' [2, 2]],
       Inr [(''coffee'', [Fin 1, Fin 0]), (''alice'', [Fin 0, Fin 1])])"
    by (simp add: read_vec_file_as_dict_def io_defs str_defs arr_defs validate_shape_def
        example_lib_def)
  have h: "split_ws (strip ''3 2\<newline>'') = [''3'', ''2'']"
    by (simp add: str_defs)
  have i: "to_int example_lib ''3'' \<noteq> None" "to_int example_lib ''2'' \<noteq> None"
    by (simp_all add: example_lib_def)
  have ok: "\<forall>l\<in>set ([''coffee 1 0\<newline>'', ''alice 1 0\<newline>''] @ ''alice 0 1\<newline>'' # []).
      \<exists>t lab v. parse_vector l = Inr (t, lab) \<and> np_array1 example_lib t = Inr v"
    by (simp add: str_defs arr_defs example_lib_def)
  have c: "\<exists>l\<in>set ([''coffee 1 0\<newline>'', ''alice 1 0\<newline>''] @ ''alice 0 1\<newline>'' # []).
      \<exists>t. parse_vector l = Inr (t, ''coffee'')"
    by (simp add: str_defs)
  have p: "parse_vector ''alice 0 1\<newline>'' = Inr ([''0'', ''1''], ''alice'')"
    by (simp add: str_defs)
  have n: "\<forall>l\<in>set []. \<forall>t. parse_vector l \<noteq> Inr (t, ''alice'')"
    by simp
  from last_write_wins[OF h i ok c p n] r show ?thesis
    by (simp add: arr_defs example_lib_def)
qed

text \<open>
  C9 as stated speaks of every input file. A file whose lines repeat a label and of
  which none is labelled "coffee" gives no mapping: the lookup of "coffee" raises
  KeyError.
\<close>

theorem duplicate_labels_without_coffee_raise:
  "read_vec_file_as_dict example_lib
      (Some [''2 2\<newline>'', ''alice 1 0\<newline>'', ''bob 0 1\<newline>'', ''alice 0 1\<newline>'']) =
     ([], Inl KeyError)"
  by (simp add: read_vec_file_as_dict_def io_defs str_defs arr_defs example_lib_def)

text \<open>
  C10. In a file with a two-token header whose lines all parse, \<open>read_vec_file_as_dict\<close>
  raises KeyError when no line has the label "coffee"; when one has, the shape compared
  with the header is the number of keys and the length of the vector of "coffee" alone.
\<close>

theorem coffee_key_required:
  assumes "split_ws (strip (readline lines)) = [vocab_size, embed_dim]"
    and "dict_loop L (drop 1 lines) [] = Inr d"
  shows "((\<forall>l\<in>set (drop 1 lines). \<forall>t. parse_vector l \<noteq> Inr (t, ''coffee'')) \<longrightarrow>
            read_vec_file_as_dict L (Some lines) = ([], Inl KeyError)) \<and>
         (\<forall>c v e. map_of d ''coffee'' = Some c \<and> to_int L vocab_size = Some v \<and>
                  to_int L embed_dim = Some e \<longrightarrow>
            read_vec_file_as_dict L (Some lines) =
              (if [int (length d), int (length c)] = [v, e] then []
               else [ShapeWarning vocab_size embed_dim [length d, length c]],
               Inr d))"
proof (intro conjI impI allI)
  assume "\<forall>l\<in>set (drop 1 lines). \<forall>t. parse_vector l \<noteq> Inr (t, ''coffee'')"
  from dict_loop_other[OF assms(2) this] have "map_of d ''coffee'' = None" by simp
  with assms show "read_vec_file_as_dict L (Some lines) = ([], Inl KeyError)"
    by (simp add: read_vec_file_as_dict_def io_defs)
next
  fix c v e
  assume "map_of d ''coffee'' = Some c \<and> to_int L vocab_size = Some v \<and> to_int L embed_dim = Some e"
  with assms show "read_vec_file_as_dict L (Some lines) =
              (if [int (length d), int (length c)] = [v, e] then []
               else [ShapeWarning vocab_size embed_dim [length d, length c]],
               Inr d)"
    by (simp add: read_vec_file_as_dict_def io_defs validate_shape_def)
qed

theorem coffee_key_required_witness:
  "read_vec_file_as_dict example_lib (Some [''2 2\<newline>'', ''alice 1 0\<newline>'', ''bob 0 1\<newline>''])
     = ([], Inl KeyError) \<and>
   read_vec_file_as_dict example_lib (Some [''2 2\<newline>'', ''coffee 1 0\<newline>'', ''alice 1\<newline>''])
     = ([], Inr [(''coffee'', [Fin 1, Fin 0]), (''alice'', [Fin 1])])"
proof -
  have h: "split_ws (strip (readline [''2 2\<newline>'', ''alice 1 0\<newline>'', ''bob 0 1\<newline>''])) = [''2'', ''2'']"
    by (simp add: str_defs)
  have l1: "dict_loop example_lib (drop 1 [''2 2\<newline>'', ''alice 1 0\<newline>'', ''bob 0 1\<newline>'']) []
      = Inr [(''alice'', [Fin 1, Fin 0]), (''bob'', [Fin 0, Fin 1])]"
    by (simp add: str_defs arr_defs example_lib_def)
  have n1: "\<forall>l\<in>set (drop 1 [''2 2\<newline>'', ''alice 1 0\<newline>'', ''bob 0 1\<newline>'']).
      \<forall>t. parse_vector l \<noteq> Inr (t, ''coffee'')"
    by (simp add: str_defs)
  have h2: "split_ws (strip (readline [''2 2\<newline>'', ''coffee 1 0\<newline>'', ''alice 1\<newline>''])) = [''2'', ''2'']"
    by (simp add: str_defs)
  have l2: "dict_loop example_lib (drop 1 [''2 2\<newline>'', ''coffee 1 0\<newline>'', ''alice 1\<newline>'']) []
      = Inr [(''coffee'', [Fin 1, Fin 0]), (''alice'', [Fin 1])]"
    by (simp add: str_defs arr_defs example_lib_def)
  from coffee_key_required[OF h l1] n1 coffee_key_required[OF h2 l2]
  show ?thesis by (simp add: example_lib_def)
qed

subsection \<open>Projection\<close>

lemmas num_defs = dot_def norm2_def fsum_def

text \<open>
  C5, as amended. For four anchors of one dimension and a non-empty sequence of vectors
  of that dimension, \<open>scalar_projection\<close> returns, for each vector, its inner product
  with the difference of the first two anchors divided by its Euclidean norm, and with
  that of the last two. The witness is the scenario of alice, bob and carol.
\<close>

theorem projection_formula:
  assumes "length px = D" and "length nx = D" and "length py = D" and "length ny = D"
    and "vectors \<noteq> []" and "list_all (\<lambda>v. length v = D) vectors"
  shows "scalar_projection vectors [px, nx, py, ny] =
     Inr (Array (map (\<lambda>v. dot v (map (\<lambda>c. fdiv c (norm2 (map2 fsub px nx))) (map2 fsub px nx))) vectors),
          Array (map (\<lambda>v. dot v (map (\<lambda>c. fdiv c (norm2 (map2 fsub py ny))) (map2 fsub py ny))) vectors))"
  using assms by (simp add: scalar_projection_def build_axis_def vsub_def np_dot_def)

theorem projection_formula_witness:
  "scalar_projection [[Fin 1, Fin 0], [Fin 0, Fin 1], [Fin (- 1), Fin 0]]
       [[Fin 1, Fin 0], [Fin (- 1), Fin 0], [Fin 0, Fin 1], [Fin 0, Fin (- 1)]] =
     Inr (Array [Fin 1, Fin 0, Fin (- 1)], Array [Fin 0, Fin 1, Fin 0])"
proof -
  have l: "length [Fin 1, Fin 0] = 2" "length [Fin (- 1), Fin 0] = 2"
      "length [Fin 0, Fin 1] = 2" "length [Fin 0, Fin (- 1)] = 2"
    by simp_all
  have n: "[[Fin 1, Fin 0], [Fin 0, Fin 1], [Fin (- 1), Fin 0]] \<noteq> []" by simp
  have a: "list_all (\<lambda>v. length v = 2) [[Fin 1, Fin 0], [Fin 0, Fin 1], [Fin (- 1), Fin 0]]"
    by simp
  have s: "sqrt 4 = 2" by simp
  from projection_formula[OF l n a] show ?thesis
    by (simp add: num_defs)
qed

text \<open>
  C5 as stated speaks of every sequence of input vectors. On the empty sequence
  \<open>np.dot\<close> gets an array of shape \<open>(0,)\<close> and raises ValueError: nothing is returned.
\<close>

theorem empty_projection_raises:
  "scalar_projection [] [[Fin 1, Fin 0], [Fin (- 1), Fin 0], [Fin 0, Fin 1], [Fin 0, Fin (- 1)]]
     = Inl ValueError"
  by (simp add: scalar_projection_def build_axis_def vsub_def np_dot_def)

text \<open>Differences of equal floats are 0 or NaN, and so are sums, squares and roots of such.\<close>

lemma fsub_self: "fsub x x \<in> {Fin 0, NaN}"
  by (cases x) auto

lemma fmul_zeroish: "c \<in> {Fin 0, NaN} \<Longrightarrow> fmul c c \<in> {Fin 0, NaN}"
  by auto

lemma foldl_fadd_zeroish:
  "a \<in> {Fin 0, NaN} \<Longrightarrow> set xs \<subseteq> {Fin 0, NaN} \<Longrightarrow> foldl fadd a xs \<in> {Fin 0, NaN}"
proof (induction xs arbitrary: a)
  case Nil
  then show ?case by simp
next
  case (Cons x xs)
  from Cons.prems have "fadd a x \<in> {Fin 0, NaN}" by auto
  with Cons show ?case by simp
qed

lemma norm2_zeroish: "set d \<subseteq> {Fin 0, NaN} \<Longrightarrow> norm2 d \<in> {Fin 0, NaN}"
proof -
  assume d: "set d \<subseteq> {Fin 0, NaN}"
  then have "set (map (\<lambda>c. fmul c c) d) \<subseteq> {Fin 0, NaN}" by auto
  then have "fsum (map (\<lambda>c. fmul c c) d) \<in> {Fin 0, NaN}"
    unfolding fsum_def by (intro foldl_fadd_zeroish) auto
  then show ?thesis by (auto simp: norm2_def)
qed

lemma fdiv_zeroish: "c \<in> {Fin 0, NaN} \<Longrightarrow> n \<in> {Fin 0, NaN} \<Longrightarrow> fdiv c n = NaN"
  by auto

lemma map_const_replicate: "(\<And>x. x \<in> set xs \<Longrightarrow> f x = a) \<Longrightarrow> map f xs = replicate (length xs) a"
  by (induction xs) auto

text \<open>
  C7. With identical positive and negative anchors the axis is defined and is the same
  for every such pair: the vector of NaN of the anchors' length. The division by the
  zero norm is a float division of numpy, which raises nothing.
\<close>

theorem identical_anchors_give_nan_axis:
  "build_axis v v = Inr (replicate (length v) NaN)"
proof -
  let ?d = "map2 fsub v v"
  have d: "set ?d \<subseteq> {Fin 0, NaN}"
    using fsub_self by (auto simp: zip_same_conv_map)
  have "map (\<lambda>c. fdiv c (norm2 ?d)) ?d = replicate (length ?d) NaN"
  proof (rule map_const_replicate)
    fix x assume "x \<in> set ?d"
    with d have "x \<in> {Fin 0, NaN}" by blast
    then show "fdiv x (norm2 ?d) = NaN"
      using norm2_zeroish[OF d] by (rule fdiv_zeroish)
  qed
  then show ?thesis by (simp add: build_axis_def vsub_def)
qed

subsection \<open>Sessions and ranges of sessions\<close>

lemmas ex_defs = example_lib_def example_corr_def size_of_def example_world_def example_csv_def
  example_vec_def example_axes_def example_dict_def

lemmas csv_defs = read_dwnominate_csv_def dw_step_def lower_def lower_char_def re_sub_comma_def

lemmas eval_defs = evaluate_ideology_projection_def read_vec_file_with_axes_def
  scalar_projection_def build_axis_def vsub_def np_dot_def scatter_plot_def indexable_def

text \<open>The scores and the names that \<open>read_dwnominate_csv\<close> returns are equally many.\<close>

lemma mapE_length: "mapE f xs = Inr ys \<Longrightarrow> length ys = length xs"
  by (induction xs arbitrary: ys) (auto split: sum.splits)

lemma fold_dw_step_length:
  "fold dw_step rows (a, b, c) = (a', b', c') \<Longrightarrow> length a = length b \<Longrightarrow> length a' = length b'"
  by (induction rows arbitrary: a b c) (auto simp: dw_step_def split: if_splits)

lemma read_dwnominate_csv_lengths:
  assumes "read_dwnominate_csv L csv = (out, Inr (scores, names))"
  shows "length scores = length names"
proof -
  from assms obtain rows where csv: "csv = Some rows"
    by (cases csv) (auto simp: read_dwnominate_csv_def io_defs)
  obtain a b c where f: "fold dw_step rows ([], [], []) = (a, b, c)"
    by (cases "fold dw_step rows ([], [], [])") auto
  from fold_dw_step_length[OF f] have ab: "length a = length b" by simp
  from assms csv f have "np_array1 L a = Inr scores" and "names = map (\<lambda>i. lower (re_sub_comma i)) b"
    by (auto simp: read_dwnominate_csv_def io_defs split: if_splits sum.splits)
  then show ?thesis using ab by (auto simp: np_array1_def dest: mapE_length)
qed

text \<open>The senators found in the dict are those whose name is a key; the others are missing.\<close>

lemma in_vocab_conv:
  "in_vocab vec_dict ideology senators =
     filter (\<lambda>(s, x). s \<in> fst ` set vec_dict) (zip senators ideology)"
  by (auto simp: in_vocab_def map_of_eq_None_iff intro!: filter_cong)

lemma in_vocab_names:
  "length ideology = length senators \<Longrightarrow>
     map fst (in_vocab vec_dict ideology senators) = filter (\<lambda>s. s \<in> fst ` set vec_dict) senators"
proof -
  assume len: "length ideology = length senators"
  have "map fst (filter (\<lambda>(s, x). s \<in> fst ` set vec_dict) (zip senators ideology)) =
        filter (\<lambda>s. s \<in> fst ` set vec_dict) (map fst (zip senators ideology))"
    by (simp add: filter_map comp_def case_prod_unfold)
  with len show ?thesis by (simp add: in_vocab_conv)
qed

lemma missing_of_conv:
  "length ideology = length senators \<Longrightarrow>
     missing_of vec_dict ideology senators = filter (\<lambda>s. s \<notin> fst ` set vec_dict) senators"
  by (auto simp: missing_of_def in_vocab_names intro!: filter_cong)

text \<open>What one session returns, in either mode, when its files are read and projected.\<close>

lemma evaluate_result:
  assumes csv: "read_dwnominate_csv L (csv_files W c) = (out, Inr (ideology, names))"
    and vec: "read_vec_file_with_axes L vec_file = Inr (vectors, axis_vectors, labels)"
    and proj: "scalar_projection vectors axis_vectors = Inr (x_proj, y_proj)"
    and plot: "scatter_plot L x_proj ideology names = Inr () \<or>
               scatter_plot L x_proj ideology names = Inl ValueError"
  shows "evaluate_ideology_projection L W vec_file c =
           (out @ (if scatter_plot L x_proj ideology names = Inl ValueError
                   then [FailedToGraph c] else []),
            correlations L x_proj ideology)"
proof -
  from plot show ?thesis
  proof
    assume "scatter_plot L x_proj ideology names = Inr ()"
    then show ?thesis
      by (simp add: evaluate_ideology_projection_def csv vec proj io_defs split: sum.splits)
  next
    assume "scatter_plot L x_proj ideology names = Inl ValueError"
    then show ?thesis
      by (simp add: evaluate_ideology_projection_def csv vec proj io_defs split: sum.splits)
  qed
qed

lemma dict_session_result:
  assumes csv: "read_dwnominate_csv L (csv_files W c) = (out, Inr (ideology, senators))"
    and kept: "kept = filter (\<lambda>(s, x). s \<in> fst ` set vec_dict) (zip senators ideology)"
    and missing: "missing = filter (\<lambda>s. s \<notin> fst ` set vec_dict) senators"
    and proj: "scalar_projection (map (\<lambda>(s, x). the (map_of vec_dict s)) kept) axis_vectors
                 = Inr (x_proj, y_proj)"
    and plot: "scatter_plot L x_proj (map snd kept) (map fst kept) = Inr ()"
  shows "dict_session L W vec_dict axis_vectors c =
           (out @ (if missing = [] then [] else [SessionMissing c missing]),
            correlations L x_proj (map snd kept))"
proof -
  from read_dwnominate_csv_lengths[OF csv] have len: "length ideology = length senators" .
  have k: "in_vocab vec_dict ideology senators = kept"
    by (simp add: in_vocab_conv kept)
  have m: "missing_of vec_dict ideology senators = missing"
    by (simp add: missing_of_conv[OF len] missing)
  show ?thesis
    unfolding dict_session_def csv
    using proj plot
    by (simp add: k m io_defs Let_def comp_def case_prod_unfold split: sum.splits)
qed

text \<open>The loop of the drivers: when every session returns, and when one raises.\<close>

lemma sum_loop_ok:
  "\<forall>c\<in>set cs. ev c = (l c, Inr (p c, s c)) \<Longrightarrow>
     sum_loop ev cs acc =
       (concat (map (\<lambda>c. l c @ [Correlations (p c) (s c)]) cs),
        Inr (foldl fadd (fst acc) (map p cs), foldl fadd (snd acc) (map s cs)))"
  by (induction cs arbitrary: acc) (simp_all add: io_defs)

lemma sum_loop_fail:
  "\<forall>c\<in>set pre. ev c = (l c, Inr (p c, s c)) \<Longrightarrow> ev k = (lk, Inl e) \<Longrightarrow>
     sum_loop ev (pre @ k # post) acc =
       (concat (map (\<lambda>c. l c @ [Correlations (p c) (s c)]) pre) @ lk, Inl e)"
  by (induction pre arbitrary: acc) (simp_all add: io_defs)

lemma compare_first_fails:
  assumes "start < end'"
    and "evaluate_ideology_projection L W (vec_files W start) start = (l, Inl e)"
  shows "compare_among_years L W start end' = (l, Inl e)"
proof -
  from assms(1) have "[start..end' - 1] = start # [start + 1..end' - 1]"
    by (simp add: upto_rec1)
  with assms(2) show ?thesis
    by (simp add: compare_among_years_def io_defs)
qed

lemma dict_compare_first_fails:
  assumes "start < end'"
    and "map_of vec_dict ''conservative'' = Some px" and "map_of vec_dict ''liberal'' = Some nx"
    and "map_of vec_dict ''good'' = Some py" and "map_of vec_dict ''bad'' = Some ny"
    and "rectangular [px, nx, py, ny]"
    and "dict_session L W vec_dict [px, nx, py, ny] start = (l, Inl e)"
  shows "dict_compare_among_years L W vec_dict start end' = (l, Inl e)"
proof -
  from assms(1) have "[start..end' - 1] = start # [start + 1..end' - 1]"
    by (simp add: upto_rec1)
  with assms(2-) show ?thesis
    by (simp add: dict_compare_among_years_def io_defs)
qed

text \<open>A session whose projection raises; no vector at all makes it raise.\<close>

lemma evaluate_projection_fails:
  assumes csv: "read_dwnominate_csv L (csv_files W c) = (out, Inr (ideology, names))"
    and vec: "read_vec_file_with_axes L vec_file = Inr (vectors, axis_vectors, labels)"
    and proj: "scalar_projection vectors axis_vectors = Inl e"
  shows "evaluate_ideology_projection L W vec_file c = (out, Inl e)"
  by (simp add: evaluate_ideology_projection_def csv vec proj io_defs)

lemma dict_session_projection_fails:
  assumes csv: "read_dwnominate_csv L (csv_files W c) = (out, Inr (ideology, senators))"
    and kept: "kept = filter (\<lambda>(s, x). s \<in> fst ` set vec_dict) (zip senators ideology)"
    and missing: "missing = filter (\<lambda>s. s \<notin> fst ` set vec_dict) senators"
    and proj: "scalar_projection (map (\<lambda>(s, x). the (map_of vec_dict s)) kept) axis_vectors = Inl e"
  shows "dict_session L W vec_dict axis_vectors c =
           (out @ (if missing = [] then [] else [SessionMissing c missing]), Inl e)"
proof -
  from read_dwnominate_csv_lengths[OF csv] have len: "length ideology = length senators" .
  have k: "in_vocab vec_dict ideology senators = kept"
    by (simp add: in_vocab_conv kept)
  have m: "missing_of vec_dict ideology senators = missing"
    by (simp add: missing_of_conv[OF len] missing)
  show ?thesis
    unfolding dict_session_def csv
    using proj
    by (simp add: k m io_defs Let_def comp_def case_prod_unfold)
qed

lemma no_vectors_projection:
  "rectangular [px, nx, py, ny] \<Longrightarrow> px \<noteq> [] \<Longrightarrow>
     scalar_projection [] [px, nx, py, ny] = Inl ValueError"
proof -
  assume rect: "rectangular [px, nx, py, ny]" and dim: "px \<noteq> []"
  from rect have len: "length nx = length px" "length py = length px" "length ny = length px"
    by (simp_all add: rectangular_def)
  with dim have "nx \<noteq> []" by auto
  with len dim show ?thesis
    by (simp add: scalar_projection_def build_axis_def vsub_def np_dot_def)
qed

text \<open>A session that raises ends the run of either driver.\<close>

lemma compare_fails:
  assumes "start \<le> k" and "k < end'"
    and "\<forall>c\<in>set [start..k - 1].
       evaluate_ideology_projection L W (vec_files W c) c = (l c, Inr (p c, s c))"
    and "evaluate_ideology_projection L W (vec_files W k) k = (lk, Inl e)"
  shows "compare_among_years L W start end' =
      (concat (map (\<lambda>c. l c @ [Correlations (p c) (s c)]) [start..k - 1]) @ lk, Inl e)"
proof -
  from assms(1,2) have r: "[start..end' - 1] = [start..k - 1] @ k # [k + 1..end' - 1]"
    by (intro upto_split3) auto
  from assms(3,4) have "\<forall>c\<in>set [start..k - 1].
      (\<lambda>c. evaluate_ideology_projection L W (vec_files W c) c) c = (l c, Inr (p c, s c))"
    and "(\<lambda>c. evaluate_ideology_projection L W (vec_files W c) c) k = (lk, Inl e)"
    by simp_all
  from sum_loop_fail[OF this] show ?thesis
    by (simp add: compare_among_years_def r io_defs)
qed

lemma dict_compare_fails:
  assumes "map_of vec_dict ''conservative'' = Some px" and "map_of vec_dict ''liberal'' = Some nx"
    and "map_of vec_dict ''good'' = Some py" and "map_of vec_dict ''bad'' = Some ny"
    and "rectangular [px, nx, py, ny]"
    and "start \<le> k" and "k < end'"
    and "\<forall>c\<in>set [start..k - 1].
       dict_session L W vec_dict [px, nx, py, ny] c = (l c, Inr (p c, s c))"
    and "dict_session L W vec_dict [px, nx, py, ny] k = (lk, Inl e)"
  shows "dict_compare_among_years L W vec_dict start end' =
      (concat (map (\<lambda>c. l c @ [Correlations (p c) (s c)]) [start..k - 1]) @ lk, Inl e)"
proof -
  from assms(6,7) have r: "[start..end' - 1] = [start..k - 1] @ k # [k + 1..end' - 1]"
    by (intro upto_split3) auto
  from sum_loop_fail[OF assms(8,9)] assms(1-5) show ?thesis
    by (simp add: dict_compare_among_years_def r io_defs)
qed

text \<open>The example files, evaluated.\<close>

lemma lib_same: "example_lib\<lparr>pearsonr := example_corr, spearmanr := example_corr\<rparr> = example_lib"
  by (simp add: example_lib_def)

lemma lib_sel:
  "pearsonr example_lib = example_corr"
  "spearmanr example_lib = example_corr"
  "scatter example_lib = (\<lambda>x y. if size_of x \<noteq> length y then Some ValueError else None)"
  by (simp_all add: example_lib_def)

lemma example_dict_lookups:
  "map_of example_dict ''alice'' = Some [Fin 1, Fin 0]"
  "map_of example_dict ''conservative'' = Some [Fin 1, Fin 0]"
  "map_of example_dict ''liberal'' = Some [Fin (- 1), Fin 0]"
  "map_of example_dict ''good'' = Some [Fin 0, Fin 1]"
  "map_of example_dict ''bad'' = Some [Fin 0, Fin (- 1)]"
  "map_of example_dict ''dave'' = None"
  by (simp_all add: example_dict_def)

lemma example_axes_rectangular:
  "rectangular [[Fin 1, Fin 0], [Fin (- 1), Fin 0], [Fin 0, Fin 1], [Fin 0, Fin (- 1)]]"
  by (simp add: rectangular_def)

lemma proj_single:
  "scalar_projection [[Fin 1, Fin 0]]
      [[Fin 1, Fin 0], [Fin (- 1), Fin 0], [Fin 0, Fin 1], [Fin 0, Fin (- 1)]] =
    Inr (Array [Fin 1], Array [Fin 0])"
  by (simp add: eval_defs num_defs)

lemma csv_full:
  "n \<noteq> 3 \<Longrightarrow> n \<noteq> 7 \<Longrightarrow> n \<noteq> 20 \<Longrightarrow>
   read_dwnominate_csv example_lib (csv_files example_world n) =
     ([], Inr ([Fin (1 / 2), Fin 0, Fin (- 1 / 2)], [''alice'', ''bob'', ''carol'']))"
  by (simp add: csv_defs io_defs ex_defs np_array1_def)

lemma csv3:
  "read_dwnominate_csv (example_lib\<lparr>pearsonr := f, spearmanr := g\<rparr>) (csv_files example_world 3) =
     ([], Inr ([Fin (1 / 2)], [''alice'']))"
  by (simp add: csv_defs io_defs ex_defs np_array1_def)

lemma csv7:
  "read_dwnominate_csv example_lib (csv_files example_world 7) = ([], Inr ([Fin (1 / 2)], [''dave'']))"
  by (simp add: csv_defs io_defs ex_defs np_array1_def)

lemma csv20: "read_dwnominate_csv example_lib (csv_files example_world 20) =
  ([], Inr ([Fin (1 / 2), Fin (- 1 / 2), Fin 0], [''alice'', ''bob'', ''dave'']))"
  by (simp add: csv_defs io_defs ex_defs np_array1_def)

lemma vec3:
  "read_vec_file_with_axes (example_lib\<lparr>pearsonr := f, spearmanr := g\<rparr>) (vec_files example_world 3) =
     Inr ([[Fin 1, Fin 0]],
          [[Fin 1, Fin 0], [Fin (- 1), Fin 0], [Fin 0, Fin 1], [Fin 0, Fin (- 1)]],
          [''alice''])"
  by (simp add: read_vec_file_with_axes_def str_defs arr_defs ex_defs)

lemma vec8:
  "read_vec_file_with_axes example_lib (vec_files example_world 8) =
     Inr ([[Fin 1, Fin 0], [Fin 0, Fin 1]],
          [[Fin 1, Fin 0], [Fin (- 1), Fin 0], [Fin 0, Fin 1], [Fin 0, Fin (- 1)]],
          [''alice'', ''bob''])"
  by (simp add: read_vec_file_with_axes_def str_defs arr_defs ex_defs)

lemma ev_full:
  "n \<noteq> 3 \<Longrightarrow> n \<noteq> 7 \<Longrightarrow> n \<noteq> 8 \<Longrightarrow> n \<noteq> 20 \<Longrightarrow>
   evaluate_ideology_projection example_lib example_world (vec_files example_world n) n =
     ([], Inr (Fin 1, Fin 1))"
  by (simp add: evaluate_ideology_projection_def read_vec_file_with_axes_def scalar_projection_def
      build_axis_def vsub_def np_dot_def scatter_plot_def indexable_def
      csv_defs io_defs str_defs arr_defs num_defs ex_defs)

lemma ev_single:
  "evaluate_ideology_projection example_lib example_world (vec_files example_world 3) 3 =
     ([], Inl ValueError)"
  by (simp add: evaluate_ideology_projection_def read_vec_file_with_axes_def scalar_projection_def
      build_axis_def vsub_def np_dot_def scatter_plot_def indexable_def
      csv_defs io_defs str_defs arr_defs num_defs ex_defs)

lemma ev_mismatch:
  "evaluate_ideology_projection example_lib example_world (vec_files example_world 8) 8 =
     ([FailedToGraph 8], Inl ValueError)"
  by (simp add: evaluate_ideology_projection_def read_vec_file_with_axes_def scalar_projection_def
      build_axis_def vsub_def np_dot_def scatter_plot_def indexable_def
      csv_defs io_defs str_defs arr_defs num_defs ex_defs)

lemma session3_dict:
  "dict_session example_lib example_world example_dict
       [[Fin 1, Fin 0], [Fin (- 1), Fin 0], [Fin 0, Fin 1], [Fin 0, Fin (- 1)]] 3 =
     ([], Inl ValueError)"
proof -
  have iv: "in_vocab example_dict [Fin (1 / 2)] [''alice''] = [(''alice'', Fin (1 / 2))]"
    by (simp add: in_vocab_def example_dict_lookups)
  then have mo: "missing_of example_dict [Fin (1 / 2)] [''alice''] = []"
    by (simp add: missing_of_def)
  show ?thesis
    by (simp add: dict_session_def csv3[of example_corr example_corr, unfolded lib_same] iv mo
        example_dict_lookups proj_single scatter_plot_def indexable_def lib_sel example_corr_def
        size_of_def io_defs)
qed

lemma session7_dict:
  "dict_session example_lib example_world example_dict
       [[Fin 1, Fin 0], [Fin (- 1), Fin 0], [Fin 0, Fin 1], [Fin 0, Fin (- 1)]] 7 =
     ([SessionMissing 7 [''dave'']], Inl ValueError)"
proof -
  have iv: "in_vocab example_dict [Fin (1 / 2)] [''dave''] = []"
    by (simp add: in_vocab_def example_dict_lookups)
  then have mo: "missing_of example_dict [Fin (1 / 2)] [''dave''] = [''dave'']"
    by (simp add: missing_of_def)
  show ?thesis
    by (simp add: dict_session_def csv7 iv mo scalar_projection_def build_axis_def vsub_def
        np_dot_def io_defs)
qed

text \<open>
  C8. In a session of the shared-dictionary mode whose retained vectors project and
  plot, the retained pairs are the pairs (name, score) of the reference rows, in row
  order, whose name is a key of the dict; their scores are the rows' own. The names that
  are no key are printed as missing for the session, and both correlation routines get
  exactly the projections and the scores of the retained pairs.
\<close>

theorem dictionary_join:
  assumes csv: "read_dwnominate_csv L (csv_files W c) = (out, Inr (ideology, senators))"
    and kept: "kept = filter (\<lambda>(s, x). s \<in> fst ` set vec_dict) (zip senators ideology)"
    and missing: "missing = filter (\<lambda>s. s \<notin> fst ` set vec_dict) senators"
    and proj: "scalar_projection (map (\<lambda>(s, x). the (map_of vec_dict s)) kept) axis_vectors
                 = Inr (x_proj, y_proj)"
    and plot: "scatter_plot L x_proj (map snd kept) (map fst kept) = Inr ()"
  shows "map fst kept = filter (\<lambda>s. s \<in> fst ` set vec_dict) senators \<and>
         dict_session L W vec_dict axis_vectors c =
           (out @ (if missing = [] then [] else [SessionMissing c missing]),
            correlations L x_proj (map snd kept))"
proof -
  from read_dwnominate_csv_lengths[OF csv] have len: "length ideology = length senators" .
  have "map fst kept = filter (\<lambda>s. s \<in> fst ` set vec_dict) senators"
    using in_vocab_names[OF len, of vec_dict] by (simp add: in_vocab_conv kept)
  with dict_session_result[OF csv kept missing proj plot] show ?thesis by simp
qed

theorem dictionary_join_witness:
  "map fst [(''alice'', Fin (1 / 2)), (''bob'', Fin (- 1 / 2))] =
     filter (\<lambda>s. s \<in> fst ` set example_dict) [''alice'', ''bob'', ''dave''] \<and>
   dict_session example_lib example_world example_dict
       [[Fin 1, Fin 0], [Fin (- 1), Fin 0], [Fin 0, Fin 1], [Fin 0, Fin (- 1)]] 20 =
     ([SessionMissing 20 [''dave'']], Inr (Fin 1, Fin 1))"
proof -
  have kept: "[(''alice'', Fin (1 / 2)), (''bob'', Fin (- 1 / 2))] =
      filter (\<lambda>(s, x). s \<in> fst ` set example_dict)
        (zip [''alice'', ''bob'', ''dave''] [Fin (1 / 2), Fin (- 1 / 2), Fin 0])"
    by (simp add: example_dict_def)
  have missing: "[''dave''] = filter (\<lambda>s. s \<notin> fst ` set example_dict) [''alice'', ''bob'', ''dave'']"
    by (simp add: example_dict_def)
  have proj: "scalar_projection
        (map (\<lambda>(s, x). the (map_of example_dict s)) [(''alice'', Fin (1 / 2)), (''bob'', Fin (- 1 / 2))])
        [[Fin 1, Fin 0], [Fin (- 1), Fin 0], [Fin 0, Fin 1], [Fin 0, Fin (- 1)]] =
      Inr (Array [Fin 1, Fin (- 1)], Array [Fin 0, Fin 0])"
    by (simp add: eval_defs num_defs example_dict_def)
  have plot: "scatter_plot example_lib (Array [Fin 1, Fin (- 1)])
        (map snd [(''alice'', Fin (1 / 2)), (''bob'', Fin (- 1 / 2))])
        (map fst [(''alice'', Fin (1 / 2)), (''bob'', Fin (- 1 / 2))]) = Inr ()"
    by (simp add: eval_defs ex_defs)
  from dictionary_join[OF csv20 kept missing proj plot] show ?thesis
    by (simp add: ex_defs)
qed

text \<open>
  C2, as amended. \<open>compare_among_years\<close> prints averages only when every session of
  the range returned, and then divides both sums by \<open>end - start\<close>, the size of the range
  asked for. A session that raises ends the run with its exception, after the output of
  the sessions before it, and no average is printed.
\<close>

theorem averages_over_requested_range:
  "(start < end' \<and>
    (\<forall>c\<in>set [start..end' - 1].
       evaluate_ideology_projection L W (vec_files W c) c = (l c, Inr (p c, s c))) \<longrightarrow>
    compare_among_years L W start end' =
      (concat (map (\<lambda>c. l c @ [Correlations (p c) (s c)]) [start..end' - 1]) @
       [Averages (fdiv (fsum (map p [start..end' - 1])) (Fin (of_int (end' - start))))
                 (fdiv (fsum (map s [start..end' - 1])) (Fin (of_int (end' - start))))],
       Inr ())) \<and>
   (start \<le> k \<and> k < end' \<and>
    (\<forall>c\<in>set [start..k - 1].
       evaluate_ideology_projection L W (vec_files W c) c = (l c, Inr (p c, s c))) \<and>
    evaluate_ideology_projection L W (vec_files W k) k = (lk, Inl e) \<longrightarrow>
    compare_among_years L W start end' =
      (concat (map (\<lambda>c. l c @ [Correlations (p c) (s c)]) [start..k - 1]) @ lk, Inl e))"
proof (intro conjI impI)
  assume a: "start < end' \<and>
    (\<forall>c\<in>set [start..end' - 1].
       evaluate_ideology_projection L W (vec_files W c) c = (l c, Inr (p c, s c)))"
  then have "\<forall>c\<in>set [start..end' - 1].
      (\<lambda>c. evaluate_ideology_projection L W (vec_files W c) c) c = (l c, Inr (p c, s c))"
    by simp
  from sum_loop_ok[OF this] a show "compare_among_years L W start end' =
      (concat (map (\<lambda>c. l c @ [Correlations (p c) (s c)]) [start..end' - 1]) @
       [Averages (fdiv (fsum (map p [start..end' - 1])) (Fin (of_int (end' - start))))
                 (fdiv (fsum (map s [start..end' - 1])) (Fin (of_int (end' - start))))],
       Inr ())"
    by (simp add: compare_among_years_def print_averages_def io_defs fsum_def)
next
  assume b: "start \<le> k \<and> k < end' \<and>
    (\<forall>c\<in>set [start..k - 1].
       evaluate_ideology_projection L W (vec_files W c) c = (l c, Inr (p c, s c))) \<and>
    evaluate_ideology_projection L W (vec_files W k) k = (lk, Inl e)"
  then have r: "[start..end' - 1] = [start..k - 1] @ k # [k + 1..end' - 1]"
    by (intro upto_split3) auto
  from b have "\<forall>c\<in>set [start..k - 1].
      (\<lambda>c. evaluate_ideology_projection L W (vec_files W c) c) c = (l c, Inr (p c, s c))"
    and "(\<lambda>c. evaluate_ideology_projection L W (vec_files W c) c) k = (lk, Inl e)"
    by simp_all
  from sum_loop_fail[OF this] show "compare_among_years L W start end' =
      (concat (map (\<lambda>c. l c @ [Correlations (p c) (s c)]) [start..k - 1]) @ lk, Inl e)"
    by (simp add: compare_among_years_def r io_defs)
qed

theorem averages_over_requested_range_witness:
  "compare_among_years example_lib example_world 1 3 =
     ([Correlations (Fin 1) (Fin 1), Correlations (Fin 1) (Fin 1), Averages (Fin 1) (Fin 1)], Inr ()) \<and>
   compare_among_years example_lib example_world 2 5 =
     ([Correlations (Fin 1) (Fin 1)], Inl ValueError)"
proof -
  have a: "(1::int) < 3 \<and> (\<forall>c\<in>set [1..3 - 1].
      evaluate_ideology_projection example_lib example_world (vec_files example_world c) c =
        ([], Inr (Fin 1, Fin 1)))"
    by (simp add: ev_full)
  have b: "(2::int) \<le> 3 \<and> (3::int) < 5 \<and> (\<forall>c\<in>set [2..3 - 1].
      evaluate_ideology_projection example_lib example_world (vec_files example_world c) c =
        ([], Inr (Fin 1, Fin 1))) \<and>
      evaluate_ideology_projection example_lib example_world (vec_files example_world 3) 3 =
        ([], Inl ValueError)"
    by (simp add: ev_full ev_single)
  from averages_over_requested_range[where start = 1 and end' = 3 and L = example_lib
      and W = example_world and l = "\<lambda>_. []" and p = "\<lambda>_. Fin 1" and s = "\<lambda>_. Fin 1",
      THEN conjunct1, THEN mp, OF a]
    averages_over_requested_range[where start = 2 and end' = 5 and k = 3 and L = example_lib
      and W = example_world and l = "\<lambda>_. []" and p = "\<lambda>_. Fin 1" and s = "\<lambda>_. Fin 1"
      and lk = "[]" and e = ValueError,
      THEN conjunct2, THEN mp, OF b]
  show ?thesis by (simp add: fsum_def upto.simps)
qed

text \<open>
  C2 as stated: in a range of five sessions whose third has a single paired sample the
  averages divide by 4. Both correlation routines of scipy refuse a single sample, the
  exception leaves the loop, and nothing is averaged.
\<close>

theorem five_sessions_one_single_sample:
  "compare_among_years example_lib example_world 1 6 =
     ([Correlations (Fin 1) (Fin 1), Correlations (Fin 1) (Fin 1)], Inl ValueError)"
  by (simp add: compare_among_years_def ev_full ev_single io_defs upto.simps)

text \<open>
  C3, as amended. When the projections and the reference scores of a session differ in
  length and \<open>ax.scatter\<close> raises ValueError on them, \<open>evaluate_ideology_projection\<close>
  prints that the session failed to graph and then calls the correlation routines on
  both sequences as they are: it returns their statistics or propagates their
  exception, and that exception ends a run of \<open>compare_among_years\<close> which starts at the
  session.
\<close>

theorem length_mismatch_reaches_correlation:
  assumes csv: "read_dwnominate_csv L (csv_files W c) = (out, Inr (ideology, names))"
    and vec: "read_vec_file_with_axes L (vec_files W c) = Inr (vectors, axis_vectors, labels)"
    and proj: "scalar_projection vectors axis_vectors = Inr (Array xs, y_proj)"
    and mismatch: "length xs \<noteq> length ideology"
    and plot: "scatter L (Array xs) ideology = Some ValueError"
    and range: "c < end'"
  shows "evaluate_ideology_projection L W (vec_files W c) c =
           (out @ [FailedToGraph c], correlations L (Array xs) ideology) \<and>
         (\<forall>e. correlations L (Array xs) ideology = Inl e \<longrightarrow>
            compare_among_years L W c end' = (out @ [FailedToGraph c], Inl e))"
proof -
  from plot have p: "scatter_plot L (Array xs) ideology names = Inl ValueError"
    by (simp add: scatter_plot_def)
  have ev: "evaluate_ideology_projection L W (vec_files W c) c =
           (out @ [FailedToGraph c], correlations L (Array xs) ideology)"
    using evaluate_result[OF csv vec proj] p by simp
  have "compare_among_years L W c end' = (out @ [FailedToGraph c], Inl e)"
    if "correlations L (Array xs) ideology = Inl e" for e
    using that compare_first_fails[OF range, of L W "out @ [FailedToGraph c]" e] ev by simp
  with ev show ?thesis by blast
qed

theorem length_mismatch_reaches_correlation_witness:
  "length [Fin 1, Fin 0] \<noteq> length [Fin (1 / 2), Fin 0, Fin (- 1 / 2)] \<and>
   scatter example_lib (Array [Fin 1, Fin 0]) [Fin (1 / 2), Fin 0, Fin (- 1 / 2)] = Some ValueError \<and>
   evaluate_ideology_projection example_lib example_world (vec_files example_world 8) 8 =
     ([FailedToGraph 8], Inl ValueError) \<and>
   compare_among_years example_lib example_world 8 9 = ([FailedToGraph 8], Inl ValueError)"
proof -
  have csv: "read_dwnominate_csv example_lib (csv_files example_world 8) =
      ([], Inr ([Fin (1 / 2), Fin 0, Fin (- 1 / 2)], [''alice'', ''bob'', ''carol'']))"
    by (simp add: csv_full)
  have proj: "scalar_projection [[Fin 1, Fin 0], [Fin 0, Fin 1]]
        [[Fin 1, Fin 0], [Fin (- 1), Fin 0], [Fin 0, Fin 1], [Fin 0, Fin (- 1)]] =
      Inr (Array [Fin 1, Fin 0], Array [Fin 0, Fin 1])"
    by (simp add: eval_defs num_defs)
  have mismatch: "length [Fin 1, Fin 0] \<noteq> length [Fin (1 / 2), Fin 0, Fin (- 1 / 2)]"
    by simp
  have plot: "scatter example_lib (Array [Fin 1, Fin 0]) [Fin (1 / 2), Fin 0, Fin (- 1 / 2)] =
      Some ValueError"
    by (simp add: ex_defs)
  have range: "(8::int) < 9" by simp
  from length_mismatch_reaches_correlation[OF csv vec8 proj mismatch plot range] mismatch plot
  show ?thesis by (simp add: ex_defs)
qed

text \<open>
  C3 as stated: the mismatch is a named error of the session, which is left out of the
  aggregation. Session 8 has two vectors for three scores: the ValueError is the one of
  the correlation routine, and the run over sessions 8 and 9 ends with it.
\<close>

theorem mismatched_session_aborts_run:
  "pearsonr example_lib (Array [Fin 1, Fin 0]) [Fin (1 / 2), Fin 0, Fin (- 1 / 2)] = Inl ValueError \<and>
   evaluate_ideology_projection example_lib example_world (vec_files example_world 8) 8 =
     ([FailedToGraph 8], Inl ValueError) \<and>
   compare_among_years example_lib example_world 8 10 = ([FailedToGraph 8], Inl ValueError)"
proof -
  have "pearsonr example_lib (Array [Fin 1, Fin 0]) [Fin (1 / 2), Fin 0, Fin (- 1 / 2)] =
      Inl ValueError"
    by (simp add: ex_defs)
  moreover have "compare_among_years example_lib example_world 8 10 =
      ([FailedToGraph 8], Inl ValueError)"
    by (simp add: compare_among_years_def ev_mismatch io_defs upto.simps)
  ultimately show ?thesis using ev_mismatch by simp
qed

text \<open>
  C6, as amended. Neither mode tests the number of paired samples, and none signals a
  distinct error. A session with exactly one paired sample raises what the correlation
  routines raise on the two one-element sequences; a session with no vector at all (and
  anchors of a dimension above 0) raises the ValueError of \<open>np.dot\<close>. This holds for a
  file with axes and for the dict, each on its own. A session that raises ends the run
  of either driver with its exception, after the output of the sessions before it, and
  no average is printed.
\<close>

theorem fewer_than_two_samples_raise:
  "(read_dwnominate_csv L (csv_files W c) = (out, Inr ([score], [name])) \<longrightarrow>
    read_vec_file_with_axes L (vec_files W c) = Inr ([v], axis_vectors, labels) \<longrightarrow>
    scalar_projection [v] axis_vectors = Inr (x_proj, y_proj) \<longrightarrow>
    scatter_plot L x_proj [score] [name] = Inr () \<longrightarrow>
    correlations L x_proj [score] = Inl e \<longrightarrow>
      evaluate_ideology_projection L W (vec_files W c) c = (out, Inl e)) \<and>
   (read_dwnominate_csv L (csv_files W c) = (out, Inr (ideology, names)) \<longrightarrow>
    read_vec_file_with_axes L (vec_files W c) = Inr ([], [px, nx, py, ny], labels) \<longrightarrow>
    rectangular [px, nx, py, ny] \<longrightarrow> px \<noteq> [] \<longrightarrow>
      evaluate_ideology_projection L W (vec_files W c) c = (out, Inl ValueError)) \<and>
   (read_dwnominate_csv L (csv_files W c) = (out, Inr (ideology, senators)) \<longrightarrow>
    filter (\<lambda>(s, x). s \<in> fst ` set vec_dict) (zip senators ideology) = [(name, score)] \<longrightarrow>
    scalar_projection [the (map_of vec_dict name)] axis_vectors = Inr (x_proj, y_proj) \<longrightarrow>
    scatter_plot L x_proj [score] [name] = Inr () \<longrightarrow>
    correlations L x_proj [score] = Inl e \<longrightarrow>
      dict_session L W vec_dict axis_vectors c =
        (out @ (if filter (\<lambda>s. s \<notin> fst ` set vec_dict) senators = [] then []
                else [SessionMissing c (filter (\<lambda>s. s \<notin> fst ` set vec_dict) senators)]),
         Inl e)) \<and>
   (read_dwnominate_csv L (csv_files W c) = (out, Inr (ideology, senators)) \<longrightarrow>
    filter (\<lambda>(s, x). s \<in> fst ` set vec_dict) (zip senators ideology) = [] \<longrightarrow>
    rectangular [px, nx, py, ny] \<longrightarrow> px \<noteq> [] \<longrightarrow>
      dict_session L W vec_dict [px, nx, py, ny] c =
        (out @ (if filter (\<lambda>s. s \<notin> fst ` set vec_dict) senators = [] then []
                else [SessionMissing c (filter (\<lambda>s. s \<notin> fst ` set vec_dict) senators)]),
         Inl ValueError)) \<and>
   (start \<le> c \<longrightarrow> c < end' \<longrightarrow>
    (\<forall>k\<in>set [start..c - 1].
       evaluate_ideology_projection L W (vec_files W k) k = (l k, Inr (p k, s k))) \<longrightarrow>
    evaluate_ideology_projection L W (vec_files W c) c = (lc, Inl e) \<longrightarrow>
      compare_among_years L W start end' =
        (concat (map (\<lambda>k. l k @ [Correlations (p k) (s k)]) [start..c - 1]) @ lc, Inl e)) \<and>
   (map_of vec_dict ''conservative'' = Some px \<longrightarrow> map_of vec_dict ''liberal'' = Some nx \<longrightarrow>
    map_of vec_dict ''good'' = Some py \<longrightarrow> map_of vec_dict ''bad'' = Some ny \<longrightarrow>
    rectangular [px, nx, py, ny] \<longrightarrow> start \<le> c \<longrightarrow> c < end' \<longrightarrow>
    (\<forall>k\<in>set [start..c - 1].
       dict_session L W vec_dict [px, nx, py, ny] k = (l k, Inr (p k, s k))) \<longrightarrow>
    dict_session L W vec_dict [px, nx, py, ny] c = (lc, Inl e) \<longrightarrow>
      dict_compare_among_years L W vec_dict start end' =
        (concat (map (\<lambda>k. l k @ [Correlations (p k) (s k)]) [start..c - 1]) @ lc, Inl e))"
proof (intro conjI impI)
  assume csv: "read_dwnominate_csv L (csv_files W c) = (out, Inr ([score], [name]))"
    and vec: "read_vec_file_with_axes L (vec_files W c) = Inr ([v], axis_vectors, labels)"
    and proj: "scalar_projection [v] axis_vectors = Inr (x_proj, y_proj)"
    and plot: "scatter_plot L x_proj [score] [name] = Inr ()"
    and corr: "correlations L x_proj [score] = Inl e"
  from evaluate_result[OF csv vec proj] plot corr
  show "evaluate_ideology_projection L W (vec_files W c) c = (out, Inl e)"
    by simp
next
  assume csv: "read_dwnominate_csv L (csv_files W c) = (out, Inr (ideology, names))"
    and vec: "read_vec_file_with_axes L (vec_files W c) = Inr ([], [px, nx, py, ny], labels)"
    and rect: "rectangular [px, nx, py, ny]" and dim: "px \<noteq> []"
  from evaluate_projection_fails[OF csv vec no_vectors_projection[OF rect dim]]
  show "evaluate_ideology_projection L W (vec_files W c) c = (out, Inl ValueError)" .
next
  assume csv: "read_dwnominate_csv L (csv_files W c) = (out, Inr (ideology, senators))"
    and kept: "filter (\<lambda>(s, x). s \<in> fst ` set vec_dict) (zip senators ideology) = [(name, score)]"
    and proj: "scalar_projection [the (map_of vec_dict name)] axis_vectors = Inr (x_proj, y_proj)"
    and plot: "scatter_plot L x_proj [score] [name] = Inr ()"
    and corr: "correlations L x_proj [score] = Inl e"
  have proj': "scalar_projection (map (\<lambda>(s, x). the (map_of vec_dict s)) [(name, score)])
      axis_vectors = Inr (x_proj, y_proj)"
    using proj by simp
  have plot': "scatter_plot L x_proj (map snd [(name, score)]) (map fst [(name, score)]) = Inr ()"
    using plot by simp
  from dict_session_result[OF csv kept[symmetric] refl proj' plot'] corr
  show "dict_session L W vec_dict axis_vectors c =
        (out @ (if filter (\<lambda>s. s \<notin> fst ` set vec_dict) senators = [] then []
                else [SessionMissing c (filter (\<lambda>s. s \<notin> fst ` set vec_dict) senators)]),
         Inl e)"
    by (simp cong: sum.case_cong)
next
  assume csv: "read_dwnominate_csv L (csv_files W c) = (out, Inr (ideology, senators))"
    and kept: "filter (\<lambda>(s, x). s \<in> fst ` set vec_dict) (zip senators ideology) = []"
    and rect: "rectangular [px, nx, py, ny]" and dim: "px \<noteq> []"
  have proj: "scalar_projection (map (\<lambda>(s, x). the (map_of vec_dict s)) [])
      [px, nx, py, ny] = Inl ValueError"
    using no_vectors_projection[OF rect dim] by simp
  from dict_session_projection_fails[OF csv kept[symmetric] refl proj]
  show "dict_session L W vec_dict [px, nx, py, ny] c =
        (out @ (if filter (\<lambda>s. s \<notin> fst ` set vec_dict) senators = [] then []
                else [SessionMissing c (filter (\<lambda>s. s \<notin> fst ` set vec_dict) senators)]),
         Inl ValueError)" .
next
  assume "start \<le> c" and "c < end'"
    and "\<forall>k\<in>set [start..c - 1].
       evaluate_ideology_projection L W (vec_files W k) k = (l k, Inr (p k, s k))"
    and "evaluate_ideology_projection L W (vec_files W c) c = (lc, Inl e)"
  then show "compare_among_years L W start end' =
        (concat (map (\<lambda>k. l k @ [Correlations (p k) (s k)]) [start..c - 1]) @ lc, Inl e)"
    by (rule compare_fails)
next
  assume "map_of vec_dict ''conservative'' = Some px" and "map_of vec_dict ''liberal'' = Some nx"
    and "map_of vec_dict ''good'' = Some py" and "map_of vec_dict ''bad'' = Some ny"
    and "rectangular [px, nx, py, ny]" and "start \<le> c" and "c < end'"
    and "\<forall>k\<in>set [start..c - 1].
       dict_session L W vec_dict [px, nx, py, ny] k = (l k, Inr (p k, s k))"
    and "dict_session L W vec_dict [px, nx, py, ny] c = (lc, Inl e)"
  then show "dict_compare_among_years L W vec_dict start end' =
        (concat (map (\<lambda>k. l k @ [Correlations (p k) (s k)]) [start..c - 1]) @ lc, Inl e)"
    by (rule dict_compare_fails)
qed

theorem fewer_than_two_samples_raise_witness:
  "evaluate_ideology_projection example_lib example_world (vec_files example_world 3) 3 =
     ([], Inl ValueError) \<and>
   evaluate_ideology_projection example_lib (example_world\<lparr>vec_files := \<lambda>n. Some example_axes\<rparr>)
       (Some example_axes) 1 =
     ([], Inl ValueError) \<and>
   dict_session example_lib example_world example_dict
       [[Fin 1, Fin 0], [Fin (- 1), Fin 0], [Fin 0, Fin 1], [Fin 0, Fin (- 1)]] 3 =
     ([], Inl ValueError) \<and>
   dict_session example_lib example_world example_dict
       [[Fin 1, Fin 0], [Fin (- 1), Fin 0], [Fin 0, Fin 1], [Fin 0, Fin (- 1)]] 7 =
     ([SessionMissing 7 [''dave'']], Inl ValueError) \<and>
   compare_among_years example_lib example_world 2 5 =
     ([Correlations (Fin 1) (Fin 1)], Inl ValueError) \<and>
   dict_compare_among_years example_lib example_world example_dict 7 9 =
     ([SessionMissing 7 [''dave'']], Inl ValueError)"
proof -
  note T = fewer_than_two_samples_raise
  let ?axes = "[[Fin 1, Fin 0], [Fin (- 1), Fin 0], [Fin 0, Fin 1], [Fin 0, Fin (- 1)]]"
  let ?W0 = "example_world\<lparr>vec_files := \<lambda>n. Some example_axes\<rparr>"
  note csv3' = csv3[of example_corr example_corr, unfolded lib_same]
  note vec3' = vec3[of example_corr example_corr, unfolded lib_same]
  have plot: "scatter_plot example_lib (Array [Fin 1]) [Fin (1 / 2)] [''alice''] = Inr ()"
    by (simp add: scatter_plot_def indexable_def lib_sel size_of_def)
  have corr: "correlations example_lib (Array [Fin 1]) [Fin (1 / 2)] = Inl ValueError"
    by (simp add: lib_sel example_corr_def)
  have f1: "evaluate_ideology_projection example_lib example_world (vec_files example_world 3) 3 =
      ([], Inl ValueError)"
    using T[THEN conjunct1, rule_format, OF csv3' vec3' proj_single plot corr] by simp
  have csv0: "read_dwnominate_csv example_lib (csv_files ?W0 1) =
      ([], Inr ([Fin (1 / 2), Fin 0, Fin (- 1 / 2)], [''alice'', ''bob'', ''carol'']))"
    by (simp add: csv_defs io_defs ex_defs np_array1_def)
  have vec0: "read_vec_file_with_axes example_lib (vec_files ?W0 1) = Inr ([], ?axes, [])"
    by (simp add: read_vec_file_with_axes_def str_defs arr_defs ex_defs)
  have dim: "[Fin 1, Fin 0] \<noteq> []" by simp
  have f2: "evaluate_ideology_projection example_lib ?W0 (Some example_axes) 1 =
      ([], Inl ValueError)"
    using T[THEN conjunct2, THEN conjunct1, rule_format, OF csv0 vec0 example_axes_rectangular dim]
    by simp
  have kept3: "filter (\<lambda>(s, x). s \<in> fst ` set example_dict) (zip [''alice''] [Fin (1 / 2)]) =
      [(''alice'', Fin (1 / 2))]"
    by (simp add: example_dict_def)
  have proj3: "scalar_projection [the (map_of example_dict ''alice'')] ?axes =
      Inr (Array [Fin 1], Array [Fin 0])"
    by (simp add: example_dict_lookups proj_single)
  have d1: "dict_session example_lib example_world example_dict ?axes 3 = ([], Inl ValueError)"
    using T[THEN conjunct2, THEN conjunct2, THEN conjunct1, rule_format,
        OF csv3' kept3 proj3 plot corr]
    by (simp add: example_dict_def)
  have kept7: "filter (\<lambda>(s, x). s \<in> fst ` set example_dict) (zip [''dave''] [Fin (1 / 2)]) = []"
    by (simp add: example_dict_def)
  have d0: "dict_session example_lib example_world example_dict ?axes 7 =
      ([SessionMissing 7 [''dave'']], Inl ValueError)"
    using T[THEN conjunct2, THEN conjunct2, THEN conjunct2, THEN conjunct1, rule_format,
        OF csv7 kept7 example_axes_rectangular dim]
    by (simp add: example_dict_def)
  have r1: "(2::int) \<le> 3" and r2: "(3::int) < 5" by simp_all
  have before: "\<forall>k\<in>set [2..3 - 1].
      evaluate_ideology_projection example_lib example_world (vec_files example_world k) k =
        ([], Inr (Fin 1, Fin 1))"
    by (simp add: ev_full)
  have g1: "compare_among_years example_lib example_world 2 5 =
      ([Correlations (Fin 1) (Fin 1)], Inl ValueError)"
    using T[THEN conjunct2, THEN conjunct2, THEN conjunct2, THEN conjunct2, THEN conjunct1,
        rule_format, OF r1 r2, where l = "\<lambda>_. []" and p = "\<lambda>_. Fin 1" and s = "\<lambda>_. Fin 1",
        OF before[rule_format] f1]
    by (simp add: upto.simps)
  have r3: "(7::int) \<le> 7" and r4: "(7::int) < 9" by simp_all
  have none: "\<forall>k\<in>set [7..7 - 1].
      dict_session example_lib example_world example_dict ?axes k = ([], Inr (Fin 1, Fin 1))"
    by simp
  have g2: "dict_compare_among_years example_lib example_world example_dict 7 9 =
      ([SessionMissing 7 [''dave'']], Inl ValueError)"
    using T[THEN conjunct2, THEN conjunct2, THEN conjunct2, THEN conjunct2, THEN conjunct2,
        rule_format, OF example_dict_lookups(2-5) example_axes_rectangular r3 r4,
        where l = "\<lambda>_. []" and p = "\<lambda>_. Fin 1" and s = "\<lambda>_. Fin 1", OF none[rule_format] d0]
    by simp
  from f1 f2 d1 d0 g1 g2 show ?thesis by simp
qed

text \<open>
  C6 as stated: fewer than two paired samples give a distinct error or None, never a
  crash, and the session is left out of the denominator. In the shared-dictionary mode,
  session 3 retains one pair and the correlation routine raises; session 7 retains none
  and \<open>np.dot\<close> raises; the run over sessions 3 and 4 ends with the exception.
\<close>

theorem fewer_than_two_samples_abort_run:
  "dict_session example_lib example_world example_dict
       [[Fin 1, Fin 0], [Fin (- 1), Fin 0], [Fin 0, Fin 1], [Fin 0, Fin (- 1)]] 3 =
     ([], Inl ValueError) \<and>
   dict_session example_lib example_world example_dict
       [[Fin 1, Fin 0], [Fin (- 1), Fin 0], [Fin 0, Fin 1], [Fin 0, Fin (- 1)]] 7 =
     ([SessionMissing 7 [''dave'']], Inl ValueError) \<and>
   dict_compare_among_years example_lib example_world example_dict 3 5 = ([], Inl ValueError)"
proof -
  have "(3::int) < 5" by simp
  from dict_compare_first_fails[OF this example_dict_lookups(2-5) example_axes_rectangular
      session3_dict] session3_dict session7_dict
  show ?thesis by simp
qed

end
